theory Spec2Isabelle
  imports Complex_Main "HOL-Library.Sublist" "HOL-Library.Word" "HOL-Library.Multiset"
begin

section \<open>The Go runtime\<close>

text \<open>
  Some results of the code are decided by the Go library and runtime and not by the
  repository. They are parameters of the model, and a theorem with a free \<open>rt\<close> holds for
  every value of them.

  \<^item> \<open>caseLower r\<close> is \<open>unicode.ToLower(r)\<close> for a rune \<open>r\<close> above ASCII, a table of package
    \<open>unicode\<close> (it maps U+0130 to \<open>i\<close> and U+212A to \<open>k\<close>, for instance).
  \<^item> \<open>caseFold r\<close> is, for a rune \<open>r\<close> above ASCII, the smallest rune of the orbit of \<open>r\<close>
    under \<open>unicode.SimpleFold\<close> (\<open>foldRune\<close> of \<open>encoding/json\<close>; it maps U+017F to \<open>S\<close>
    and U+212A to \<open>K\<close>).
  \<^item> \<open>sortTies keys\<close> decides the order that \<open>slices.SortFunc\<close> leaves among equal elements
    of a slice of more than 12 elements with these sort keys.
  \<^item> \<open>rangeOrder keys\<close> decides the order in which a \<open>range\<close> statement visits a map with
    these keys.

  The last two are rearrangements, given as a list of picks: \<open>permuteBy ps xs\<close> takes the
  element at position \<open>p mod length xs\<close> for the first pick \<open>p\<close>, goes on with the other
  elements and the other picks, and keeps the order of what is left when the picks are
  used up. Every list of picks gives a rearrangement, and every rearrangement is given by
  a list of picks (lemmas \<open>mset_permuteBy\<close> and \<open>permuteBy_any\<close>).
\<close>

type_synonym rune = nat

record goRuntime =
  caseLower :: "rune \<Rightarrow> rune"
  caseFold :: "rune \<Rightarrow> rune"
  sortTies :: "int list \<Rightarrow> nat list"
  rangeOrder :: "string list \<Rightarrow> nat list"

fun permuteBy :: "nat list \<Rightarrow> 'a list \<Rightarrow> 'a list" where
  "permuteBy [] xs = xs"
| "permuteBy (p # ps) xs =
     (if xs = [] then []
      else let i = p mod length xs in xs ! i # permuteBy ps (take i xs @ drop (Suc i) xs))"

text \<open>
  \<open>slices.SortFunc(x, cmp)\<close>, for a comparison \<open>cmp\<close> by a key, with \<open>key\<close> ascending in
  the order of \<open>cmp\<close>. On a slice of at most 12 elements it is an insertion sort, which is
  stable. On a longer slice it is a pattern-defeating quicksort: deterministic, driven by
  the comparisons only and not stable; the model keeps of it that the result is a sorted
  rearrangement of the slice, decided by the keys.
\<close>

definition SortFunc :: "goRuntime \<Rightarrow> ('a \<Rightarrow> int) \<Rightarrow> 'a list \<Rightarrow> 'a list" where
  "SortFunc rt key xs =
     (if length xs \<le> 12 then sort_key key xs
      else sort_key key (permuteBy (sortTies rt (map key xs)) xs))"

section \<open>Go strings\<close>

text \<open>
  A Go string is a sequence of bytes, here a \<^typ>\<open>string\<close>; a rune is a code point.
  \<open>DecodeRune\<close> is \<open>utf8.DecodeRuneInString\<close>, which a \<open>range\<close> over a string also uses:
  the first rune of the string and its width in bytes, and \<open>(RuneError, 1)\<close> for a byte
  that does not start a well-formed encoding (too short, a wrong continuation byte, an
  overlong form, a surrogate or a value above U+10FFFF).
\<close>

definition RuneError :: rune where
  "RuneError = 0xFFFD"

definition isCont :: "nat \<Rightarrow> bool" where
  "isCont b \<longleftrightarrow> 0x80 \<le> b \<and> b \<le> 0xBF"

definition DecodeRune :: "string \<Rightarrow> rune \<times> nat" where
  "DecodeRune s =
     (case map of_char (take 4 s) of
        [] \<Rightarrow> (RuneError, 0)
      | s0 # rest \<Rightarrow>
          if s0 < 0x80 then (s0, 1)
          else if s0 < 0xC2 \<or> 0xF4 < s0 then (RuneError, 1)
          else
            let sz = (if s0 < 0xE0 then 2 else if s0 < 0xF0 then 3 else 4 :: nat);
                lo = (if s0 = 0xE0 then 0xA0 else if s0 = 0xF0 then 0x90 else 0x80);
                hi = (if s0 = 0xED then 0x9F else if s0 = 0xF4 then 0x8F else 0xBF)
            in if length rest + 1 < sz then (RuneError, 1)
               else
                 let s1 = rest ! 0 in
                 if s1 < lo \<or> hi < s1 then (RuneError, 1)
                 else if sz \<le> 2 then ((s0 mod 0x20) * 0x40 + s1 mod 0x40, 2)
                 else
                   let s2 = rest ! 1 in
                   if \<not> isCont s2 then (RuneError, 1)
                   else if sz \<le> 3
                   then ((s0 mod 0x10) * 0x1000 + (s1 mod 0x40) * 0x40 + s2 mod 0x40, 3)
                   else
                     let s3 = rest ! 2 in
                     if \<not> isCont s3 then (RuneError, 1)
                     else ((s0 mod 0x08) * 0x40000 + (s1 mod 0x40) * 0x1000
                             + (s2 mod 0x40) * 0x40 + s3 mod 0x40, 4))"

text \<open>The runes of a string, as a \<open>range\<close> over it yields them.\<close>

function runes :: "string \<Rightarrow> rune list" where
  "runes s = (if s = [] then [] else fst (DecodeRune s) # runes (drop (snd (DecodeRune s)) s))"
  by pat_completeness auto
termination
proof (relation "measure length")
  show "wf (measure length)" by simp
next
  fix s :: string
  assume "s \<noteq> []"
  then have "1 \<le> snd (DecodeRune s)"
    by (cases s) (auto simp: DecodeRune_def Let_def)
  with \<open>s \<noteq> []\<close> show "(drop (snd (DecodeRune s)) s, s) \<in> measure length"
    by (cases s) auto
qed

declare runes.simps [simp del]

text \<open>\<open>utf8.AppendRune\<close>: the encoding of a rune, that of \<open>RuneError\<close> for a surrogate or a
  value above U+10FFFF.\<close>

definition AppendRune :: "rune \<Rightarrow> string" where
  "AppendRune r =
     (if r \<le> 0x7F then [char_of r]
      else if r \<le> 0x7FF then [char_of (0xC0 + r div 0x40), char_of (0x80 + r mod 0x40)]
      else if r > 0x10FFFF \<or> (0xD800 \<le> r \<and> r \<le> 0xDFFF) then [CHR 0xEF, CHR 0xBF, CHR 0xBD]
      else if r \<le> 0xFFFF then
        [char_of (0xE0 + r div 0x1000), char_of (0x80 + r div 0x40 mod 0x40),
         char_of (0x80 + r mod 0x40)]
      else
        [char_of (0xF0 + r div 0x40000), char_of (0x80 + r div 0x1000 mod 0x40),
         char_of (0x80 + r div 0x40 mod 0x40), char_of (0x80 + r mod 0x40)])"

text \<open>
  \<open>strings.ToLower\<close>. A string of ASCII bytes has its letters \<open>A\<close> to \<open>Z\<close> lower-cased
  byte by byte. Any other string is mapped rune by rune with \<open>unicode.ToLower\<close>
  (\<open>strings.Map\<close>): each rune is replaced by the encoding of its lower case, and a byte that
  is not part of a well-formed encoding by the encoding of \<open>RuneError\<close>.
\<close>

definition lowerByte :: "char \<Rightarrow> char" where
  "lowerByte c =
     (let n = (of_char c :: nat) in if 65 \<le> n \<and> n \<le> 90 then char_of (n + 32) else c)"

definition unicodeToLower :: "goRuntime \<Rightarrow> rune \<Rightarrow> rune" where
  "unicodeToLower rt r =
     (if r \<le> 0x7F then (if 0x41 \<le> r \<and> r \<le> 0x5A then r + 0x20 else r) else caseLower rt r)"

definition isASCII :: "string \<Rightarrow> bool" where
  "isASCII s = list_all (\<lambda>c. (of_char c :: nat) < 0x80) s"

definition ToLower :: "goRuntime \<Rightarrow> string \<Rightarrow> string" where
  "ToLower rt s =
     (if isASCII s then map lowerByte s
      else concat (map (\<lambda>r. AppendRune (unicodeToLower rt r)) (runes s)))"

definition Contains :: "string \<Rightarrow> string \<Rightarrow> bool" where
  "Contains s sub = sublist sub s"

definition HasPrefix :: "string \<Rightarrow> string \<Rightarrow> bool" where
  "HasPrefix s p = prefix p s"

definition HasSuffix :: "string \<Rightarrow> string \<Rightarrow> bool" where
  "HasSuffix s p = suffix p s"

text \<open>
  \<open>filepath.Ext\<close>: scanning from the end, stopping at a path separator, the suffix that
  starts at the last dot of the last path element; empty when there is no dot.
  \<open>extRev\<close> runs over the reversed path and collects the bytes passed so far.
\<close>

fun extRev :: "string \<Rightarrow> string \<Rightarrow> string" where
  "extRev [] acc = []"
| "extRev (c # cs) acc =
     (if c = CHR ''/'' then []
      else if c = CHR ''.'' then c # acc
      else extRev cs (c # acc))"

definition Ext :: "string \<Rightarrow> string" where
  "Ext p = extRev (rev p) []"

section \<open>File selection: \<open>scorePath\<close> and \<open>pickPaths\<close>\<close>

definition highValueExts :: "string list" where
  "highValueExts = [''.go'', ''.py'', ''.ts'', ''.js'', ''.java'', ''.rs'', ''.swift'', ''.kt'',
     ''.kts'', ''.rb'', ''.ex'', ''.exs'', ''.cs'', ''.cpp'', ''.c'', ''.h'', ''.hpp'']"

definition mediumValueExts :: "string list" where
  "mediumValueExts = [''.sh'', ''.sql'']"

definition configExts :: "string list" where
  "configExts = [''.yml'', ''.yaml'', ''.json'', ''.toml'', ''.hcl'', ''dockerfile'', ''.tf'']"

definition lowValueExts :: "string list" where
  "lowValueExts = [''.md'', ''.txt'', ''.html'', ''.css'']"

definition extBonus :: "string \<Rightarrow> int" where
  "extBonus ext =
     (if ext \<in> set highValueExts then 50
      else if ext \<in> set mediumValueExts then 20
      else if ext \<in> set configExts then 5
      else if ext \<in> set lowValueExts then 2
      else 0)"

definition scorePath :: "goRuntime \<Rightarrow> string \<Rightarrow> int" where
  "scorePath rt p =
     (let l = ToLower rt p in
      if Contains l ''/vendor/'' \<or> Contains l ''/node_modules/'' \<or> Contains l ''/.git/''
         \<or> Contains l ''/build/'' \<or> Contains l ''/dist/'' then 0
      else if HasPrefix l ''gen/'' \<or> HasPrefix l ''docs/'' \<or> Contains l ''example'' then 1
      else if HasSuffix l ''.png'' \<or> HasSuffix l ''.jpg'' \<or> HasSuffix l ''.zip''
         \<or> HasSuffix l ''.pdf'' \<or> HasSuffix l ''.svg'' then 0
      else
        let score = 10;
            score = (if HasPrefix l ''internal/'' \<or> HasPrefix l ''pkg/'' \<or> HasPrefix l ''src/''
                        \<or> HasPrefix l ''lib/'' then score + 20 else score);
            score = (if HasPrefix l ''cmd/'' then score + 15 else score);
            score = score + extBonus (Ext l);
            score = (if HasSuffix l ''_test.go'' \<or> Contains l ''.test.'' \<or> Contains l ''.spec.''
                     then score - 5 else score)
        in if HasSuffix l ''.lock'' \<or> HasSuffix l ''go.sum'' then 1 else score)"

text \<open>
  \<open>pickPaths\<close>: keep the entries with a positive score, sort them by descending score
  (\<open>slices.SortFunc\<close> with the comparison \<open>b.Score - a.Score\<close>) and copy them to the
  output, leaving the loop once the output has reached \<open>cfg.App.ChunksPerRepo\<close> entries.
  The test comes after the append, as in the source.
\<close>

type_synonym scoredPath = "string \<times> int"

definition scoredPaths :: "goRuntime \<Rightarrow> string list \<Rightarrow> scoredPath list" where
  "scoredPaths rt entries =
     filter (\<lambda>sp. snd sp > 0) (map (\<lambda>p. (p, scorePath rt p)) entries)"

definition sortDesc :: "goRuntime \<Rightarrow> scoredPath list \<Rightarrow> scoredPath list" where
  "sortDesc rt sps = SortFunc rt (\<lambda>sp. - snd sp) sps"

fun takeLoop :: "scoredPath list \<Rightarrow> string list \<Rightarrow> int \<Rightarrow> string list" where
  "takeLoop [] out n = out"
| "takeLoop (sp # sps) out n =
     (let out' = out @ [fst sp] in
      if int (length out') \<ge> n then out' else takeLoop sps out' n)"

definition pickPaths :: "goRuntime \<Rightarrow> string list \<Rightarrow> int \<Rightarrow> string list" where
  "pickPaths rt entries chunksPerRepo =
     takeLoop (sortDesc rt (scoredPaths rt entries)) [] chunksPerRepo"

section \<open>Data model\<close>

type_synonym error = string

text \<open>A Go call either returns or panics; an unrecovered panic ends the process.\<close>

datatype 'a outcome = Panic string | Done 'a

record RepoTarget =
  Owner :: string
  Name :: string
  DefaultBranch :: string
  Stars :: int
  Pinned :: bool
  Language :: string

record FileChunk =
  Path :: string
  StartLine :: int
  EndLine :: int
  Content :: string
  ChunkLanguage :: string

record Citation =
  File :: string
  Lines :: string
  Reason :: string

text \<open>The six sub-scores are Go \<open>int\<close>s: 64-bit, signed, wrapping.\<close>

record ChunkScore =
  Readability :: "64 word"
  Design :: "64 word"
  Testing :: "64 word"
  Maintain :: "64 word"
  Idiomatic :: "64 word"
  Security :: "64 word"
  Notes :: "string list"
  Citations :: "Citation list"

record ArchStrength =
  asPoint :: string
  asJustification :: string

record ArchConsideration =
  acPoint :: string
  acJustification :: string
  acSeverity :: string

record archScore =
  ArchStrengths :: "ArchStrength list"
  ArchConsiderations :: "ArchConsideration list"

record RepoResult =
  Repo :: RepoTarget
  Score :: int
  Strengths :: "string list"
  Risks :: "string list"
  ResArchStrengths :: "ArchStrength list"
  ResArchConsiderations :: "ArchConsideration list"
  Samples :: "(string \<times> string) list"
  Files :: int
  Chunks :: int

definition emptyResult :: "RepoTarget \<Rightarrow> RepoResult" where
  "emptyResult repo = \<lparr>Repo = repo, Score = 0, Strengths = [], Risks = [],
     ResArchStrengths = [], ResArchConsiderations = [], Samples = [], Files = 0, Chunks = 0\<rparr>"

section \<open>\<open>float64\<close> arithmetic\<close>

text \<open>
  A finite \<open>float64\<close> is the rational number it denotes. Every operation computes the
  exact result and rounds it to the nearest number with a 53-bit significand, ties to even
  (\<open>fl64\<close>), as IEEE 754 does. The exponent range is not bounded: the quantities of
  \<open>evaluateRepo\<close> stay far from overflow and from subnormal numbers, and its only
  divisors are \<open>30.0\<close> and a positive \<open>cnt\<close>. Each operation is rounded on its own, as
  on amd64; Go lets a compiler fuse a multiplication with the addition that follows, which
  leaves out the rounding of the product.
\<close>

type_synonym float64 = rat

text \<open>The number of binary digits of a positive integer.\<close>

function bitLen :: "int \<Rightarrow> int" where
  "bitLen k = (if k \<le> 0 then 0 else 1 + bitLen (k div 2))"
  by pat_completeness auto
termination
  by (relation "measure nat") auto

declare bitLen.simps [simp del]

definition pow2 :: "int \<Rightarrow> rat" where
  "pow2 e = (if e \<ge> 0 then 2 ^ nat e else 1 / 2 ^ nat (- e))"

text \<open>\<open>floorLog2 q\<close> is the binary exponent of a positive \<open>q\<close>: \<open>2^e \<le> q < 2^(e+1)\<close>.\<close>

definition floorLog2 :: "rat \<Rightarrow> int" where
  "floorLog2 q =
     (let (a, b) = quotient_of q;
          k = bitLen a - bitLen b
      in if pow2 k \<le> q then k else k - 1)"

definition roundHalfEven :: "rat \<Rightarrow> int" where
  "roundHalfEven x =
     (let f = \<lfloor>x\<rfloor>; d = x - of_int f
      in if d < 1 / 2 then f else if d > 1 / 2 then f + 1 else if even f then f else f + 1)"

definition fl64 :: "rat \<Rightarrow> float64" where
  "fl64 q =
     (if q = 0 then 0
      else let u = pow2 (floorLog2 \<bar>q\<bar> - 52) in of_int (roundHalfEven (q / u)) * u)"

definition fadd :: "float64 \<Rightarrow> float64 \<Rightarrow> float64" where
  "fadd a b = fl64 (a + b)"

definition fmul :: "float64 \<Rightarrow> float64 \<Rightarrow> float64" where
  "fmul a b = fl64 (a * b)"

definition fdiv :: "float64 \<Rightarrow> float64 \<Rightarrow> float64" where
  "fdiv a b = fl64 (a / b)"

text \<open>\<open>float64(total)\<close> for a Go \<open>int\<close>.\<close>

definition floatOfInt :: "64 word \<Rightarrow> float64" where
  "floatOfInt t = fl64 (of_int (sint t))"

text \<open>
  \<open>int(f)\<close> drops the fraction (towards zero). Where the value does not fit 64 bits Go
  leaves the result to the implementation; the model returns the smallest \<open>int\<close>, as amd64
  does.
\<close>

definition truncate :: "rat \<Rightarrow> int" where
  "truncate f = (if f \<ge> 0 then \<lfloor>f\<rfloor> else \<lceil>f\<rceil>)"

definition intOfFloat :: "float64 \<Rightarrow> int" where
  "intOfFloat f =
     (let t = truncate f in if - (2 ^ 63) \<le> t \<and> t < 2 ^ 63 then t else - (2 ^ 63))"

definition clamp :: "int \<Rightarrow> int \<Rightarrow> int \<Rightarrow> int" where
  "clamp v lo hi = (if v < lo then lo else if v > hi then hi else v)"

section \<open>Aggregation of chunk scores (the loop of \<open>evaluateRepo\<close>)\<close>

definition total :: "ChunkScore \<Rightarrow> 64 word" where
  "total sc = Readability sc + Design sc + Testing sc + Maintain sc + Idiomatic sc + Security sc"

text \<open>The weight of a chunk, from its path: \<open>w := 1.0\<close>, then \<open>w += 0.1\<close>, \<open>w += 0.2\<close>.\<close>

definition weight :: "goRuntime \<Rightarrow> string \<Rightarrow> float64" where
  "weight rt path =
     (let p = ToLower rt path;
          w = 1;
          w = (if Contains p ''test'' then fadd w (fl64 (1 / 10)) else w);
          w = (if HasPrefix p ''cmd/'' \<or> Contains p ''/internal/'' then fadd w (fl64 (2 / 10)) else w)
      in w)"

definition positiveNote :: "string \<Rightarrow> bool" where
  "positiveNote low \<longleftrightarrow>
     Contains low ''well-structured'' \<or> Contains low ''idiomatic'' \<or> Contains low ''tested''"

definition negativeNote :: "string \<Rightarrow> bool" where
  "negativeNote low \<longleftrightarrow>
     Contains low ''missing tests'' \<or> Contains low ''long function'' \<or> Contains low ''globals''
     \<or> Contains low ''security'' \<or> Contains low ''concurrency''"

record aggState =
  sum_acc :: float64
  cnt :: float64
  strengths :: "string list"
  risks :: "string list"
  samples :: "(string \<times> string) list"

definition initState :: aggState where
  "initState = \<lparr>sum_acc = 0, cnt = 0, strengths = [], risks = [], samples = []\<rparr>"

text \<open>One round of the inner loop over \<open>sc.Notes\<close>: the \<open>switch\<close> takes the first case that matches.\<close>

definition noteStep :: "goRuntime \<Rightarrow> aggState \<Rightarrow> string \<Rightarrow> aggState" where
  "noteStep rt st n =
     (let low = ToLower rt n in
      if positiveNote low then
        (if length (strengths st) < 3 then st\<lparr>strengths := strengths st @ [n]\<rparr> else st)
      else if negativeNote low then
        (if length (risks st) < 3 then st\<lparr>risks := risks st @ [n]\<rparr> else st)
      else st)"

definition first :: "string list \<Rightarrow> string" where
  "first s = (case s of [] \<Rightarrow> [] | x # _ \<Rightarrow> x)"

definition sampleURL :: "RepoTarget \<Rightarrow> string \<Rightarrow> string" where
  "sampleURL repo path =
     ''https://github.com/'' @ Owner repo @ ''/'' @ Name repo @ ''/blob/'' @ DefaultBranch repo
       @ ''/'' @ path"

text \<open>
  One round of the outer loop, for the score at index \<open>i\<close>. A zero total skips the chunk
  before \<open>chunks[i]\<close> is read; otherwise an index outside \<open>chunks\<close> panics.
\<close>

definition chunkStep :: "goRuntime \<Rightarrow> RepoTarget \<Rightarrow> FileChunk list \<Rightarrow> nat \<Rightarrow> ChunkScore \<Rightarrow> aggState \<Rightarrow> aggState outcome" where
  "chunkStep rt repo chunks i sc st =
     (if total sc = 0 then Done st
      else if i \<ge> length chunks then Panic ''index out of range''
      else
        let path = Path (chunks ! i);
            w = weight rt path;
            st = st\<lparr>sum_acc := fadd (sum_acc st) (fmul (fdiv (floatOfInt (total sc)) 30) w),
                     cnt := fadd (cnt st) w\<rparr>;
            st = (if length (samples st) < 3 \<and> Citations sc \<noteq> []
                  then st\<lparr>samples := samples st @ [(sampleURL repo path, first (Notes sc))]\<rparr>
                  else st)
        in Done (foldl (noteStep rt) st (Notes sc)))"

fun scoreLoop :: "goRuntime \<Rightarrow> RepoTarget \<Rightarrow> FileChunk list \<Rightarrow> nat \<Rightarrow> ChunkScore list \<Rightarrow> aggState \<Rightarrow> aggState outcome" where
  "scoreLoop rt repo chunks i [] st = Done st"
| "scoreLoop rt repo chunks i (sc # scs) st =
     (case chunkStep rt repo chunks i sc st of
        Panic m \<Rightarrow> Panic m
      | Done st' \<Rightarrow> scoreLoop rt repo chunks (Suc i) scs st')"

definition finalScore :: "aggState \<Rightarrow> int" where
  "finalScore st =
     (if cnt st > 0 then clamp (intOfFloat (fmul (fdiv (sum_acc st) (cnt st)) 100)) 0 100 else 0)"

text \<open>The score of a repository from its chunks and their scores.\<close>

definition repoScore :: "goRuntime \<Rightarrow> RepoTarget \<Rightarrow> FileChunk list \<Rightarrow> ChunkScore list \<Rightarrow> int outcome" where
  "repoScore rt repo chunks scores =
     (case scoreLoop rt repo chunks 0 scores initState of
        Panic m \<Rightarrow> Panic m
      | Done st \<Rightarrow> Done (finalScore st))"

section \<open>Evaluating one repository: \<open>sampleChunks\<close>, \<open>evaluateRepo\<close>, \<open>Submit\<close>\<close>

text \<open>The fields of \<open>Config.App\<close> that the service reads.\<close>

record Config =
  ReposLimit :: int
  ChunksPerRepo :: int
  MaxChunkBytes :: int
  IncludePinned :: bool
  IncludeNonPinned :: bool
  ExcludeForks :: bool

record discoverOptions =
  Limit :: int
  optIncludePinned :: bool
  optIncludeNonPinned :: bool
  optExcludeForks :: bool

text \<open>
  The collaborators behind the interfaces \<open>ghRepo\<close> and \<open>Client\<close>, as the answers they give
  to each request. A Go call returning \<open>(v, err)\<close> is a pair of the value and an optional
  error where the caller reads the value also on error, and a sum otherwise.
\<close>

record services =
  svcDiscoverUserRepos :: "string \<Rightarrow> discoverOptions \<Rightarrow> error + RepoTarget list"
  svcGetLatestCommitSHA :: "string \<Rightarrow> string \<Rightarrow> string \<Rightarrow> string \<times> error option"
  svcListTree :: "string \<Rightarrow> string \<Rightarrow> string \<Rightarrow> string \<Rightarrow> error + string list"
  svcReadFile :: "string \<Rightarrow> string \<Rightarrow> string \<Rightarrow> string \<Rightarrow> string \<Rightarrow> error + string"
  svcEvaluateScores :: "RepoTarget \<Rightarrow> FileChunk list \<Rightarrow> ChunkScore list \<times> error option"
  svcEvaluateArch :: "RepoTarget \<Rightarrow> string list \<Rightarrow> archScore"

text \<open>
  \<open>ghRepoImpl.GetLatestCommitSHA\<close>, from the answer of the REST call: the empty string
  together with the error when the call fails.
\<close>

definition GetLatestCommitSHA :: "error + string \<Rightarrow> string \<times> error option" where
  "GetLatestCommitSHA rest = (case rest of Inl e \<Rightarrow> ([], Some e) | Inr sha \<Rightarrow> (sha, None))"

definition guessLang :: "goRuntime \<Rightarrow> string \<Rightarrow> string" where
  "guessLang rt p =
     (let l = ToLower rt p in
      if HasSuffix l ''.go'' then ''Go''
      else if HasSuffix l ''.ts'' then ''TypeScript''
      else if HasSuffix l ''.js'' then ''JavaScript''
      else if HasSuffix l ''.py'' then ''Python''
      else if HasSuffix l ''.rb'' then ''Ruby''
      else if HasSuffix l ''.java'' then ''Java''
      else if HasSuffix l ''.dart'' then ''Dart''
      else if HasSuffix l ''.clj'' then ''Clojure''
      else if HasSuffix l ''.cljs'' then ''ClojureScript''
      else if HasSuffix l ''.rkt'' then ''Racket''
      else if HasSuffix l ''.gleam'' then ''Gleam''
      else if HasSuffix l ''.ex'' \<or> HasSuffix l ''.exs'' then ''Elixir''
      else if HasSuffix l ''.md'' \<or> HasSuffix l ''.markdown'' then ''Markdown''
      else if HasSuffix l ''.cpp'' \<or> HasSuffix l ''.hpp'' \<or> HasSuffix l ''.cc''
              \<or> HasSuffix l ''.h'' then ''C++''
      else if HasSuffix l ''.cs'' then ''C#''
      else if HasSuffix l ''.swift'' then ''Swift''
      else if HasSuffix l ''.kt'' \<or> HasSuffix l ''.kts'' then ''Kotlin''
      else if HasSuffix l ''.rs'' then ''Rust''
      else if HasSuffix l ''.php'' then ''PHP''
      else if HasSuffix l ''.html'' \<or> HasSuffix l ''.htm'' then ''HTML''
      else if HasSuffix l ''.css'' then ''CSS''
      else if HasSuffix l ''.sh'' then ''Shell''
      else if HasSuffix l ''.yml'' \<or> HasSuffix l ''.yaml'' then ''YAML''
      else if HasSuffix l ''.json'' then ''JSON''
      else if HasSuffix l ''.toml'' then ''TOML''
      else ''Unknown'')"

text \<open>
  \<open>sampleChunks\<close>. The bound is tested before a file is read. \<open>data[:MaxChunkBytes]\<close>
  panics for a negative \<open>MaxChunkBytes\<close>.
\<close>

fun sampleLoop :: "goRuntime \<Rightarrow> services \<Rightarrow> Config \<Rightarrow> RepoTarget \<Rightarrow> string \<Rightarrow> string list \<Rightarrow> FileChunk list
    \<Rightarrow> FileChunk list outcome" where
  "sampleLoop rt s cfg repo sha [] chunks = Done chunks"
| "sampleLoop rt s cfg repo sha (fp # fps) chunks =
     (if int (length chunks) \<ge> ChunksPerRepo cfg then Done chunks
      else case svcReadFile s (Owner repo) (Name repo) (DefaultBranch repo) fp sha of
        Inl e \<Rightarrow> sampleLoop rt s cfg repo sha fps chunks
      | Inr data \<Rightarrow>
          if data = [] then sampleLoop rt s cfg repo sha fps chunks
          else if int (length data) > MaxChunkBytes cfg \<and> MaxChunkBytes cfg < 0
          then Panic ''slice bounds out of range''
          else
            let data = (if int (length data) > MaxChunkBytes cfg
                        then take (nat (MaxChunkBytes cfg)) data else data);
                lines = 1 + int (count_list data (CHR 0x0A))
            in sampleLoop rt s cfg repo sha fps
                 (chunks @ [\<lparr>Path = fp, StartLine = 1, EndLine = lines, Content = data,
                              ChunkLanguage = guessLang rt fp\<rparr>]))"

definition sampleChunks :: "goRuntime \<Rightarrow> services \<Rightarrow> Config \<Rightarrow> RepoTarget \<Rightarrow> string list \<Rightarrow> string
    \<Rightarrow> FileChunk list outcome" where
  "sampleChunks rt s cfg repo files sha = sampleLoop rt s cfg repo sha files []"

text \<open>
  \<open>evaluateRepo\<close>. After a failed \<open>GetLatestCommitSHA\<close> the function prints a warning and
  goes on; the next statement formats \<open>sha[:7]\<close>, which panics when \<open>sha\<close> has fewer than
  seven bytes. Printing is not modelled otherwise.
\<close>

definition evaluateRepo :: "goRuntime \<Rightarrow> services \<Rightarrow> Config \<Rightarrow> RepoTarget
    \<Rightarrow> (RepoResult \<times> error option) outcome" where
  "evaluateRepo rt s cfg repo =
     (let (sha, err) = svcGetLatestCommitSHA s (Owner repo) (Name repo) (DefaultBranch repo) in
      if length sha < 7 then Panic ''slice bounds out of range''
      else case svcListTree s (Owner repo) (Name repo) (DefaultBranch repo) sha of
        Inl e \<Rightarrow> Done (emptyResult repo, Some e)
      | Inr tree \<Rightarrow>
          let archResult = svcEvaluateArch s repo tree;
              paths = pickPaths rt tree (ChunksPerRepo cfg)
          in case sampleChunks rt s cfg repo paths sha of
               Panic m \<Rightarrow> Panic m
             | Done chunks \<Rightarrow>
                 if chunks = [] then Done (emptyResult repo, None)
                 else
                   let (scores, err) = svcEvaluateScores s repo chunks in
                   case scoreLoop rt repo chunks 0 scores initState of
                     Panic m \<Rightarrow> Panic m
                   | Done st \<Rightarrow>
                       Done (\<lparr>Repo = repo, Score = finalScore st, Strengths = strengths st,
                              Risks = risks st,
                              ResArchStrengths = ArchStrengths archResult,
                              ResArchConsiderations = ArchConsiderations archResult,
                              Samples = samples st, Files = int (length paths),
                              Chunks = int (length chunks)\<rparr>, None))"

text \<open>
  \<open>Submit\<close> runs \<open>evaluateRepo\<close> in one goroutine per repository and waits for all of them;
  a panic in any goroutine ends the process. The goroutines do not share state, so the
  model evaluates them in turn. The report is the list of results in descending score
  order, sorted by \<open>slices.SortFunc\<close> (rendering to HTML is not modelled).
\<close>

fun evaluateAll :: "goRuntime \<Rightarrow> services \<Rightarrow> Config \<Rightarrow> RepoTarget list \<Rightarrow> RepoResult list outcome" where
  "evaluateAll rt s cfg [] = Done []"
| "evaluateAll rt s cfg (r # rs) =
     (case evaluateRepo rt s cfg r of
        Panic m \<Rightarrow> Panic m
      | Done (res, err) \<Rightarrow>
          (case evaluateAll rt s cfg rs of
             Panic m \<Rightarrow> Panic m
           | Done ress \<Rightarrow> Done (res # ress)))"

definition Submit :: "goRuntime \<Rightarrow> services \<Rightarrow> Config \<Rightarrow> string \<Rightarrow> (error + RepoResult list) outcome" where
  "Submit rt s cfg user =
     (case svcDiscoverUserRepos s user
             \<lparr>Limit = ReposLimit cfg, optIncludePinned = IncludePinned cfg,
              optIncludeNonPinned = IncludeNonPinned cfg, optExcludeForks = ExcludeForks cfg\<rparr> of
        Inl e \<Rightarrow> Done (Inl e)
      | Inr repos \<Rightarrow>
          if repos = [] then Done (Inl (''no repositories for @'' @ user))
          else case evaluateAll rt s cfg repos of
                 Panic m \<Rightarrow> Panic m
               | Done results \<Rightarrow> Done (Inr (SortFunc rt (\<lambda>r. - Score r) results)))"

section \<open>The disk cache: \<open>writeCache\<close> and \<open>readCache\<close>\<close>

text \<open>
  The file system as the cache sees it: the regular files with their modification time
  (nanoseconds) and content, and the operations that fail on a path. Directories are not
  modelled; \<open>os.MkdirAll\<close> only succeeds or fails.
\<close>

record cacheFile =
  modTime :: int
  content :: string

datatype opKind = OpStat | OpReadFile | OpMkdirAll | OpWriteFile

record fileSystem =
  files :: "string \<rightharpoonup> cacheFile"
  faults :: "opKind \<Rightarrow> string \<Rightarrow> error option"

datatype statResult = NotExist | StatFailed error | StatOk int

definition osStat :: "fileSystem \<Rightarrow> string \<Rightarrow> statResult" where
  "osStat fs path =
     (case faults fs OpStat path of
        Some e \<Rightarrow> StatFailed e
      | None \<Rightarrow> (case files fs path of None \<Rightarrow> NotExist | Some f \<Rightarrow> StatOk (modTime f)))"

definition osReadFile :: "fileSystem \<Rightarrow> string \<Rightarrow> error + string" where
  "osReadFile fs path =
     (case faults fs OpReadFile path of
        Some e \<Rightarrow> Inl e
      | None \<Rightarrow> (case files fs path of None \<Rightarrow> Inl ''no such file'' | Some f \<Rightarrow> Inr (content f)))"

definition osMkdirAll :: "fileSystem \<Rightarrow> string \<Rightarrow> error option" where
  "osMkdirAll fs dir = faults fs OpMkdirAll dir"

definition osWriteFile :: "fileSystem \<Rightarrow> int \<Rightarrow> string \<Rightarrow> string \<Rightarrow> error option \<times> fileSystem" where
  "osWriteFile fs now path b =
     (case faults fs OpWriteFile path of
        Some e \<Rightarrow> (Some e, fs)
      | None \<Rightarrow> (None, fs\<lparr>files := (files fs)(path \<mapsto> \<lparr>modTime = now, content = b\<rparr>)\<rparr>))"

text \<open>\<open>filepath.Dir\<close>, on paths that are already clean: the path without its last element.\<close>

definition Dir :: "string \<Rightarrow> string" where
  "Dir path =
     (let d = rev (drop 1 (dropWhile (\<lambda>c. c \<noteq> CHR ''/'') (rev path)))
      in if CHR ''/'' \<notin> set path then ''.'' else if d = [] then ''/'' else d)"

text \<open>
  \<open>time.Since(t)\<close> is \<open>time.Now().Sub(t)\<close>, a \<open>Duration\<close>: 64-bit nanoseconds, saturating.
\<close>

definition maxDuration :: int where
  "maxDuration = 2 ^ 63 - 1"

definition minDuration :: int where
  "minDuration = - (2 ^ 63)"

definition Since :: "int \<Rightarrow> int \<Rightarrow> int" where
  "Since now t =
     (let d = now - t in
      if d > maxDuration then maxDuration else if d < minDuration then minDuration else d)"

text \<open>
  \<open>json.Marshal\<close> and \<open>json.Unmarshal\<close> work on any Go value; they are parameters of the
  model. \<open>Unmarshal\<close> writes into the target it is given and may have changed it when it
  returns an error.
\<close>

type_synonym 'a marshaller = "'a \<Rightarrow> error + string"
type_synonym 'a unmarshaller = "string \<Rightarrow> 'a \<Rightarrow> 'a \<times> error option"

definition writeCache :: "'a marshaller \<Rightarrow> fileSystem \<Rightarrow> int \<Rightarrow> string \<Rightarrow> 'a \<Rightarrow> error option \<times> fileSystem" where
  "writeCache marshal fs now path data =
     (case osMkdirAll fs (Dir path) of
        Some e \<Rightarrow> (Some e, fs)
      | None \<Rightarrow>
          (case marshal data of
             Inl e \<Rightarrow> (Some e, fs)
           | Inr b \<Rightarrow> osWriteFile fs now path b))"

text \<open>\<open>readCache\<close> returns the hit flag, the error and the target after the call.\<close>

definition readCache :: "'a unmarshaller \<Rightarrow> fileSystem \<Rightarrow> int \<Rightarrow> string \<Rightarrow> 'a \<Rightarrow> int \<Rightarrow> bool \<times> error option \<times> 'a" where
  "readCache unmarshal fs now path target ttl =
     (case osStat fs path of
        NotExist \<Rightarrow> (False, None, target)
      | StatFailed e \<Rightarrow> (False, Some e, target)
      | StatOk mt \<Rightarrow>
          if Since now mt > ttl then (False, None, target)
          else (case osReadFile fs path of
                  Inl e \<Rightarrow> (False, Some e, target)
                | Inr b \<Rightarrow>
                    (case unmarshal b target of
                       (target', Some e) \<Rightarrow> (False, Some e, target')
                     | (target', None) \<Rightarrow> (True, None, target'))))"

text \<open>\<open>getCachePath\<close>: the elements joined under the user's cache directory (paths are
  taken as clean, so \<open>filepath.Join\<close> only puts separators between them).\<close>

fun Join :: "string list \<Rightarrow> string" where
  "Join [] = []"
| "Join [x] = x"
| "Join (x # y # ys) = x @ ''/'' @ Join (y # ys)"

definition getCachePath :: "error + string \<Rightarrow> string list \<Rightarrow> error + string" where
  "getCachePath userCacheDir elem =
     (case userCacheDir of
        Inl e \<Rightarrow> Inl e
      | Inr cacheDir \<Rightarrow> Inr (Join ([cacheDir, ''ghp''] @ elem)))"

section \<open>Repository discovery\<close>

record repoGraphQL =
  NameWithOwner :: string
  DefaultBranchRefName :: string
  StargazerCount :: int
  IsFork :: bool
  OwnerLogin :: string
  gqlName :: string
  PrimaryLanguageName :: string

definition repoGraphQLToTarget :: "repoGraphQL \<Rightarrow> bool \<Rightarrow> RepoTarget" where
  "repoGraphQLToTarget r pinned =
     \<lparr>Owner = OwnerLogin r, Name = gqlName r, DefaultBranch = DefaultBranchRefName r,
      Stars = StargazerCount r, Pinned = pinned, Language = PrimaryLanguageName r\<rparr>"

definition zeroRepoTarget :: RepoTarget where
  "zeroRepoTarget = \<lparr>Owner = [], Name = [], DefaultBranch = [], Stars = 0, Pinned = False,
     Language = []\<rparr>"

text \<open>
  \<open>repoMap\<close> is a Go map: an association list with one entry for each key. Reading a key
  that is absent gives the zero value. The entries stand in the order of their insertion,
  which is of no consequence: a \<open>range\<close> over the map visits them in the order that the
  runtime decides (\<open>rangeOrder\<close>). Star counts are far from the 64-bit range, so the
  comparison \<open>b.Stars - a.Stars\<close> does not wrap.
\<close>

type_synonym repoMap = "(string \<times> RepoTarget) list"

definition mapSet :: "string \<Rightarrow> RepoTarget \<Rightarrow> repoMap \<Rightarrow> repoMap" where
  "mapSet k v m = (if k \<in> fst ` set m then map (\<lambda>(k', v'). if k' = k then (k, v) else (k', v')) m
                   else m @ [(k, v)])"

definition mapDelete :: "string \<Rightarrow> repoMap \<Rightarrow> repoMap" where
  "mapDelete k m = filter (\<lambda>(k', v'). k' \<noteq> k) m"

definition rangeMap :: "goRuntime \<Rightarrow> repoMap \<Rightarrow> RepoTarget list" where
  "rangeMap rt m = map snd (permuteBy (rangeOrder rt (map fst m)) m)"

text \<open>The body of the loop over the pinned items: the key is appended to \<open>pinnedOrder\<close>
  whether or not the map already holds it.\<close>

definition pinnedStep :: "discoverOptions \<Rightarrow> repoMap \<times> string list \<Rightarrow> repoGraphQL \<Rightarrow> repoMap \<times> string list" where
  "pinnedStep opt acc r =
     (let (m, pinnedOrder) = acc in
      if NameWithOwner r = [] then acc
      else if optExcludeForks opt \<and> IsFork r then acc
      else (mapSet (NameWithOwner r) (repoGraphQLToTarget r True) m,
            pinnedOrder @ [NameWithOwner r]))"

definition nonPinnedStep :: "discoverOptions \<Rightarrow> repoMap \<Rightarrow> repoGraphQL \<Rightarrow> repoMap" where
  "nonPinnedStep opt m r =
     (if NameWithOwner r = [] then m
      else if map_of m (NameWithOwner r) \<noteq> None then m
      else if optExcludeForks opt \<and> IsFork r then m
      else mapSet (NameWithOwner r) (repoGraphQLToTarget r False) m)"

definition targetsStep :: "RepoTarget list \<times> repoMap \<Rightarrow> string \<Rightarrow> RepoTarget list \<times> repoMap" where
  "targetsStep acc key =
     (let (targets, m) = acc in
      (targets @ [case map_of m key of None \<Rightarrow> zeroRepoTarget | Some t \<Rightarrow> t], mapDelete key m))"

definition sortByStars :: "goRuntime \<Rightarrow> RepoTarget list \<Rightarrow> RepoTarget list" where
  "sortByStars rt rs = SortFunc rt (\<lambda>r. - Stars r) rs"

text \<open>
  The part of \<open>DiscoverUserRepos\<close> after the query, from the two node lists.
  \<open>collectRepos\<close> is its three loops over the pinned items, the repositories and
  \<open>pinnedOrder\<close>: they leave the targets of the pinned keys and the map of the other
  repositories. \<open>mergeRepos\<close> goes on with the range over the map, the sort and the cut.
\<close>

definition collectRepos :: "discoverOptions \<Rightarrow> repoGraphQL list \<Rightarrow> repoGraphQL list
    \<Rightarrow> RepoTarget list \<times> repoMap" where
  "collectRepos opt pinnedNodes repoNodes =
     (let (m, pinnedOrder) =
            (if optIncludePinned opt then foldl (pinnedStep opt) ([], []) pinnedNodes else ([], []));
          m = (if optIncludeNonPinned opt then foldl (nonPinnedStep opt) m repoNodes else m)
      in foldl targetsStep ([], m) pinnedOrder)"

definition mergeRepos :: "goRuntime \<Rightarrow> discoverOptions \<Rightarrow> repoGraphQL list \<Rightarrow> repoGraphQL list
    \<Rightarrow> RepoTarget list" where
  "mergeRepos rt opt pinnedNodes repoNodes =
     (let (targets, m) = collectRepos opt pinnedNodes repoNodes;
          remaining = sortByStars rt (rangeMap rt m);
          targets = targets @ remaining
      in if Limit opt > 0 \<and> int (length targets) > Limit opt
         then take (nat (Limit opt)) targets else targets)"

text \<open>
  \<open>DiscoverUserRepos\<close> with its cache: the world it runs in is the user's cache directory,
  the file system, the clock at the read and at the write, the JSON coding of a list of
  targets and the answer of the GraphQL query.
\<close>

record discoverWorld =
  userCacheDir :: "error + string"
  fsys :: fileSystem
  readTime :: int
  writeTime :: int
  marshalRepos :: "RepoTarget list marshaller"
  unmarshalRepos :: "RepoTarget list unmarshaller"
  graphqlQuery :: "string \<Rightarrow> error + repoGraphQL list \<times> repoGraphQL list"

definition hour :: int where
  "hour = 3600 * 1000000000"

definition DiscoverUserRepos :: "goRuntime \<Rightarrow> discoverWorld \<Rightarrow> string \<Rightarrow> discoverOptions
    \<Rightarrow> (error + RepoTarget list) \<times> fileSystem" where
  "DiscoverUserRepos rt w handle opt =
     (case getCachePath (userCacheDir w) [''repos-'' @ handle @ ''.json''] of
        Inl e \<Rightarrow> (Inl e, fsys w)
      | Inr cachePath \<Rightarrow>
          (case readCache (unmarshalRepos w) (fsys w) (readTime w) cachePath [] (1 * hour) of
             (True, err, cachedRepos) \<Rightarrow> (Inr cachedRepos, fsys w)
           | (False, err, cachedRepos) \<Rightarrow>
               (case graphqlQuery w handle of
                  Inl e \<Rightarrow> (Inl (''graphql query: '' @ e), fsys w)
                | Inr (pinnedNodes, repoNodes) \<Rightarrow>
                    let targets = mergeRepos rt opt pinnedNodes repoNodes;
                        (err, fs') = writeCache (marshalRepos w) (fsys w) (writeTime w) cachePath targets
                    in (Inr targets, fs'))))"

section \<open>One LLM call: \<open>evalOne\<close> and \<open>extractJSON\<close>\<close>

text \<open>\<open>strings.IndexByte\<close> and \<open>strings.LastIndexByte\<close>: the position, or \<open>-1\<close>.\<close>

fun IndexByte :: "string \<Rightarrow> char \<Rightarrow> int" where
  "IndexByte [] c = - 1"
| "IndexByte (x # xs) c =
     (if x = c then 0 else let i = IndexByte xs c in if i = - 1 then - 1 else i + 1)"

definition LastIndexByte :: "string \<Rightarrow> char \<Rightarrow> int" where
  "LastIndexByte s c =
     (let i = IndexByte (rev s) c in if i = - 1 then - 1 else int (length s) - 1 - i)"

definition extractJSON :: "string \<Rightarrow> error + string" where
  "extractJSON s =
     (let start = IndexByte s (CHR ''{'');
          end = LastIndexByte s (CHR ''}'')
      in if start = - 1 \<or> end = - 1 \<or> end \<le> start then Inl ''no json braces found''
         else Inr (take (nat (end + 1 - start)) (drop (nat start) s)))"

text \<open>
  The answer of the SDK to one request: an error (the transport-level failure of the
  specification; the loop retries on every error of the call), or a completion with the
  message contents of its choices. \<open>sdk k\<close> is the answer to the call of attempt \<open>k\<close>.
  The result of \<open>evalOne\<close> records, besides the error and the decoded value, the
  durations slept (in milliseconds) and the number of calls made.
\<close>

datatype sdkResponse = TransportError error | Completion "string list"

record 'a evalResult =
  evalErr :: "error option"
  evalOut :: 'a
  slept :: "int list"
  calls :: nat

text \<open>The body of the loop for a completion.\<close>

definition decodeCompletion :: "'a unmarshaller \<Rightarrow> string list \<Rightarrow> 'a \<Rightarrow> error option \<times> 'a" where
  "decodeCompletion unmarshal choices out =
     (case choices of
        [] \<Rightarrow> (Some ''empty completion'', out)
      | txt # _ \<Rightarrow>
          (case unmarshal txt out of
             (out1, None) \<Rightarrow> (None, out1)
           | (out1, Some e) \<Rightarrow>
               (case extractJSON txt of
                  Inl stripErr \<Rightarrow> (Some (''json parse: '' @ e), out1)
                | Inr js \<Rightarrow>
                    (case unmarshal js out1 of
                       (out2, None) \<Rightarrow> (None, out2)
                     | (out2, Some e2) \<Rightarrow> (Some (''json parse(2): '' @ e2), out2)))))"

function evalOneLoop :: "(nat \<Rightarrow> sdkResponse) \<Rightarrow> 'a unmarshaller \<Rightarrow> nat \<Rightarrow> error option \<Rightarrow> int list \<Rightarrow> 'a
    \<Rightarrow> 'a evalResult" where
  "evalOneLoop sdk unmarshal attempt lastErr sl out =
     (if attempt < 3 then
        (case sdk attempt of
           TransportError e \<Rightarrow>
             evalOneLoop sdk unmarshal (attempt + 1) (Some e)
               (sl @ [300 * (int attempt + 1)]) out
         | Completion choices \<Rightarrow>
             (let (err, out') = decodeCompletion unmarshal choices out
              in \<lparr>evalErr = err, evalOut = out', slept = sl, calls = attempt + 1\<rparr>))
      else \<lparr>evalErr = lastErr, evalOut = out, slept = sl, calls = attempt\<rparr>)"
  by pat_completeness auto
termination
  by (relation "measure (\<lambda>(sdk, unmarshal, attempt, lastErr, sl, out). 3 - attempt)") auto

definition evalOne :: "(nat \<Rightarrow> sdkResponse) \<Rightarrow> 'a unmarshaller \<Rightarrow> 'a \<Rightarrow> 'a evalResult" where
  "evalOne sdk unmarshal out = evalOneLoop sdk unmarshal 0 None [] out"

section \<open>Decoding \<open>ArchStrength\<close> and \<open>ArchConsideration\<close>\<close>

text \<open>
  The bytes handed to \<open>json.Unmarshal\<close> are either not JSON or denote a JSON value.
  \<open>encoding/json\<close> is modelled on the value: decoding into a \<open>string\<close> accepts a JSON
  string, leaves the target alone on \<open>null\<close> and fails on anything else; decoding into a
  struct of string fields accepts an object, finds the field of each key, ignores unknown
  keys and \<open>null\<close> members, and reports the first member that is not a string after
  decoding the others.
\<close>

datatype json =
  JNull | JBool bool | JNumber string | JString string | JArray "json list"
  | JObject "(string \<times> json) list"












section \<open>\<open>encoding/json\<close> on bytes: the scanner and \<open>json.RawMessage\<close>\<close>

text \<open>
  The scanner of \<open>encoding/json\<close> reads a text byte by byte and tells whether it is one
  JSON value between optional white space. Its state is the step function to run on the
  next byte, the stack of the objects and arrays that are open (the innermost first) and
  a flag set at the end of the top-level value. The states \<open>stateT\<close>, \<open>stateTr\<close>, \<open>\<dots>\<close> of
  the literals are kept as the letters still expected, those of a unicode escape as the
  number of hexadecimal digits read. Of the result of a step the model keeps
  whether the byte is part of the value (\<open>ScanContinue\<close>, which stands for every code
  below \<open>scanSkipSpace\<close>), white space to skip, past the end, or an error.
\<close>

datatype scanState =
  BeginValue | BeginValueOrEmpty | BeginStringOrEmpty | BeginString | EndValue | EndTop
  | InString | InStringEsc | InStringEscU nat | Neg | Num1 | Num0 | Dot | Dot0
  | Exp | ExpSign | Exp0 | Literal string | ScanFailed

datatype parseFrame = ParseObjectKey | ParseObjectValue | ParseArrayValue

datatype scanOp = ScanContinue | ScanSkipSpace | ScanEnd | ScanError

record scanner =
  scanStep :: scanState
  parseState :: "parseFrame list"
  endTop :: bool

definition resetScanner :: scanner where
  "resetScanner = \<lparr>scanStep = BeginValue, parseState = [], endTop = False\<rparr>"

definition maxNestingDepth :: nat where
  "maxNestingDepth = 10000"

definition isSpace :: "char \<Rightarrow> bool" where
  "isSpace c \<longleftrightarrow> c = CHR '' '' \<or> c = CHR 0x09 \<or> c = CHR 0x0D \<or> c = CHR 0x0A"

definition isDigit :: "char \<Rightarrow> bool" where
  "isDigit c \<longleftrightarrow> 0x30 \<le> (of_char c :: nat) \<and> (of_char c :: nat) \<le> 0x39"

definition isHex :: "char \<Rightarrow> bool" where
  "isHex c \<longleftrightarrow> isDigit c \<or> (0x61 \<le> (of_char c :: nat) \<and> (of_char c :: nat) \<le> 0x66)
     \<or> (0x41 \<le> (of_char c :: nat) \<and> (of_char c :: nat) \<le> 0x46)"

definition scanFail :: "scanner \<Rightarrow> scanner \<times> scanOp" where
  "scanFail s = (s\<lparr>scanStep := ScanFailed\<rparr>, ScanError)"

definition goto :: "scanner \<Rightarrow> scanState \<Rightarrow> scanner \<times> scanOp" where
  "goto s st = (s\<lparr>scanStep := st\<rparr>, ScanContinue)"

text \<open>\<open>stateEndTop\<close> records the error of a byte after the top-level value for the next
  call and returns \<open>scanEnd\<close>.\<close>

definition stateEndTop :: "scanner \<Rightarrow> char \<Rightarrow> scanner \<times> scanOp" where
  "stateEndTop s c = (if \<not> isSpace c then (s\<lparr>scanStep := ScanFailed\<rparr>, ScanEnd) else (s, ScanEnd))"

definition pushParseState :: "scanner \<Rightarrow> parseFrame \<Rightarrow> scanState \<Rightarrow> scanner \<times> scanOp" where
  "pushParseState s frame next =
     (let s = s\<lparr>scanStep := next, parseState := frame # parseState s\<rparr>
      in if length (parseState s) \<le> maxNestingDepth then (s, ScanContinue) else scanFail s)"

definition popParseState :: "scanner \<Rightarrow> scanner" where
  "popParseState s =
     (let ps = tl (parseState s)
      in if ps = [] then s\<lparr>parseState := ps, scanStep := EndTop, endTop := True\<rparr>
         else s\<lparr>parseState := ps, scanStep := EndValue\<rparr>)"

definition stateEndValue :: "scanner \<Rightarrow> char \<Rightarrow> scanner \<times> scanOp" where
  "stateEndValue s c =
     (case parseState s of
        [] \<Rightarrow> stateEndTop (s\<lparr>scanStep := EndTop, endTop := True\<rparr>) c
      | ps # rest \<Rightarrow>
          if isSpace c then (s\<lparr>scanStep := EndValue\<rparr>, ScanSkipSpace)
          else (case ps of
             ParseObjectKey \<Rightarrow>
               if c = CHR '':''
               then (s\<lparr>parseState := ParseObjectValue # rest, scanStep := BeginValue\<rparr>, ScanContinue)
               else scanFail s
           | ParseObjectValue \<Rightarrow>
               if c = CHR '',''
               then (s\<lparr>parseState := ParseObjectKey # rest, scanStep := BeginString\<rparr>, ScanContinue)
               else if c = CHR ''}'' then (popParseState s, ScanContinue)
               else scanFail s
           | ParseArrayValue \<Rightarrow>
               if c = CHR '','' then goto s BeginValue
               else if c = CHR '']'' then (popParseState s, ScanContinue)
               else scanFail s))"

definition stateBeginString :: "scanner \<Rightarrow> char \<Rightarrow> scanner \<times> scanOp" where
  "stateBeginString s c =
     (if isSpace c then (s, ScanSkipSpace)
      else if c = CHR 0x22 then goto s InString
      else scanFail s)"

definition stateBeginValue :: "scanner \<Rightarrow> char \<Rightarrow> scanner \<times> scanOp" where
  "stateBeginValue s c =
     (if isSpace c then (s, ScanSkipSpace)
      else if c = CHR ''{'' then pushParseState s ParseObjectKey BeginStringOrEmpty
      else if c = CHR ''['' then pushParseState s ParseArrayValue BeginValueOrEmpty
      else if c = CHR 0x22 then goto s InString
      else if c = CHR ''-'' then goto s Neg
      else if c = CHR ''0'' then goto s Num0
      else if c = CHR ''t'' then goto s (Literal ''rue'')
      else if c = CHR ''f'' then goto s (Literal ''alse'')
      else if c = CHR ''n'' then goto s (Literal ''ull'')
      else if isDigit c then goto s Num1
      else scanFail s)"

definition stateBeginStringOrEmpty :: "scanner \<Rightarrow> char \<Rightarrow> scanner \<times> scanOp" where
  "stateBeginStringOrEmpty s c =
     (if isSpace c then (s, ScanSkipSpace)
      else if c = CHR ''}''
      then stateEndValue (s\<lparr>parseState := ParseObjectValue # tl (parseState s)\<rparr>) c
      else stateBeginString s c)"

definition stateBeginValueOrEmpty :: "scanner \<Rightarrow> char \<Rightarrow> scanner \<times> scanOp" where
  "stateBeginValueOrEmpty s c =
     (if isSpace c then (s, ScanSkipSpace)
      else if c = CHR '']'' then stateEndValue s c
      else stateBeginValue s c)"

definition stateInString :: "scanner \<Rightarrow> char \<Rightarrow> scanner \<times> scanOp" where
  "stateInString s c =
     (if c = CHR 0x22 then goto s EndValue
      else if c = CHR 0x5C then goto s InStringEsc
      else if (of_char c :: nat) < 0x20 then scanFail s
      else (s, ScanContinue))"

definition stateInStringEsc :: "scanner \<Rightarrow> char \<Rightarrow> scanner \<times> scanOp" where
  "stateInStringEsc s c =
     (if c \<in> set [CHR ''b'', CHR ''f'', CHR ''n'', CHR ''r'', CHR ''t'', CHR 0x5C, CHR ''/'', CHR 0x22]
      then goto s InString
      else if c = CHR ''u'' then goto s (InStringEscU 0)
      else scanFail s)"

definition stateInStringEscU :: "nat \<Rightarrow> scanner \<Rightarrow> char \<Rightarrow> scanner \<times> scanOp" where
  "stateInStringEscU k s c =
     (if isHex c then goto s (if k \<ge> 3 then InString else InStringEscU (k + 1))
      else scanFail s)"

definition stateNeg :: "scanner \<Rightarrow> char \<Rightarrow> scanner \<times> scanOp" where
  "stateNeg s c =
     (if c = CHR ''0'' then goto s Num0
      else if isDigit c then goto s Num1
      else scanFail s)"

definition state0 :: "scanner \<Rightarrow> char \<Rightarrow> scanner \<times> scanOp" where
  "state0 s c =
     (if c = CHR ''.'' then goto s Dot
      else if c = CHR ''e'' \<or> c = CHR ''E'' then goto s Exp
      else stateEndValue s c)"

definition state1 :: "scanner \<Rightarrow> char \<Rightarrow> scanner \<times> scanOp" where
  "state1 s c = (if isDigit c then goto s Num1 else state0 s c)"

definition stateDot :: "scanner \<Rightarrow> char \<Rightarrow> scanner \<times> scanOp" where
  "stateDot s c = (if isDigit c then goto s Dot0 else scanFail s)"

definition stateDot0 :: "scanner \<Rightarrow> char \<Rightarrow> scanner \<times> scanOp" where
  "stateDot0 s c =
     (if isDigit c then (s, ScanContinue)
      else if c = CHR ''e'' \<or> c = CHR ''E'' then goto s Exp
      else stateEndValue s c)"

definition stateESign :: "scanner \<Rightarrow> char \<Rightarrow> scanner \<times> scanOp" where
  "stateESign s c = (if isDigit c then goto s Exp0 else scanFail s)"

definition stateE :: "scanner \<Rightarrow> char \<Rightarrow> scanner \<times> scanOp" where
  "stateE s c = (if c = CHR ''+'' \<or> c = CHR ''-'' then goto s ExpSign else stateESign s c)"

definition stateE0 :: "scanner \<Rightarrow> char \<Rightarrow> scanner \<times> scanOp" where
  "stateE0 s c = (if isDigit c then (s, ScanContinue) else stateEndValue s c)"

definition stateLiteral :: "string \<Rightarrow> scanner \<Rightarrow> char \<Rightarrow> scanner \<times> scanOp" where
  "stateLiteral expected s c =
     (case expected of
        [] \<Rightarrow> scanFail s
      | x # xs \<Rightarrow>
          if c = x then goto s (if xs = [] then EndValue else Literal xs) else scanFail s)"

text \<open>\<open>s.step(s, c)\<close>.\<close>

definition scanByte :: "scanner \<Rightarrow> char \<Rightarrow> scanner \<times> scanOp" where
  "scanByte s c =
     (case scanStep s of
        BeginValue \<Rightarrow> stateBeginValue s c
      | BeginValueOrEmpty \<Rightarrow> stateBeginValueOrEmpty s c
      | BeginStringOrEmpty \<Rightarrow> stateBeginStringOrEmpty s c
      | BeginString \<Rightarrow> stateBeginString s c
      | EndValue \<Rightarrow> stateEndValue s c
      | EndTop \<Rightarrow> stateEndTop s c
      | InString \<Rightarrow> stateInString s c
      | InStringEsc \<Rightarrow> stateInStringEsc s c
      | InStringEscU k \<Rightarrow> stateInStringEscU k s c
      | Neg \<Rightarrow> stateNeg s c
      | Num1 \<Rightarrow> state1 s c
      | Num0 \<Rightarrow> state0 s c
      | Dot \<Rightarrow> stateDot s c
      | Dot0 \<Rightarrow> stateDot0 s c
      | Exp \<Rightarrow> stateE s c
      | ExpSign \<Rightarrow> stateESign s c
      | Exp0 \<Rightarrow> stateE0 s c
      | Literal expected \<Rightarrow> stateLiteral expected s c
      | ScanFailed \<Rightarrow> (s, ScanError))"

text \<open>\<open>s.eof()\<close>: whether the text may end here.\<close>

definition scanEOF :: "scanner \<Rightarrow> bool" where
  "scanEOF s =
     (if scanStep s = ScanFailed then False
      else if endTop s then True
      else endTop (fst (scanByte s (CHR '' ''))))"

text \<open>\<open>checkValid\<close>: the text is scanned to its end, or to the first error.\<close>

fun scanAll :: "scanner \<Rightarrow> string \<Rightarrow> scanner option" where
  "scanAll s [] = Some s"
| "scanAll s (c # cs) =
     (case scanByte s c of
        (s', ScanError) \<Rightarrow> None
      | (s', _) \<Rightarrow> scanAll s' cs)"

definition checkValid :: "string \<Rightarrow> bool" where
  "checkValid data = (case scanAll resetScanner data of None \<Rightarrow> False | Some s \<Rightarrow> scanEOF s)"





text \<open>
  A \<open>json.RawMessage\<close> that is not \<open>nil\<close> is its bytes. \<open>json.Marshal\<close> compacts the
  message and fails when it is not valid JSON. \<open>json.Unmarshal\<close> into a message fails on a
  text that is not valid and leaves the target alone; otherwise the target receives the
  bytes of the value, that is the text without the white space around it.
\<close>

definition trimSpace :: "string \<Rightarrow> string" where
  "trimSpace s = rev (dropWhile isSpace (rev (dropWhile isSpace s)))"


definition unmarshalRawMessage :: "string \<Rightarrow> string \<Rightarrow> string \<times> error option" where
  "unmarshalRawMessage b target =
     (if checkValid b then (trimSpace b, None) else (target, Some ''invalid character''))"

section \<open>The claims' words as definitions\<close>

text \<open>
  The aggregation as the specification words it: every chunk whose six sub-scores have a
  non-zero total contributes \<open>(total / 30) \<times> weight\<close> to the numerator and \<open>weight\<close> to
  the denominator. \<open>contributions\<close> lists the pairs of total and weight of these chunks,
  in order; sums are taken from the left, in \<open>float64\<close>. \<open>truncatedScore\<close> converts the
  percentage as \<open>int(\<dots>)\<close> does, by dropping the fraction.
\<close>

definition contributions :: "goRuntime \<Rightarrow> FileChunk list \<Rightarrow> nat \<Rightarrow> ChunkScore list
    \<Rightarrow> (64 word \<times> float64) list" where
  "contributions rt chunks i scores =
     map (\<lambda>(j, sc). (total sc, weight rt (Path (chunks ! j))))
       (filter (\<lambda>(j, sc). total sc \<noteq> 0) (enumerate i scores))"

definition numerator :: "(64 word \<times> float64) list \<Rightarrow> float64" where
  "numerator cs = foldl fadd 0 (map (\<lambda>(t, w). fmul (fdiv (floatOfInt t) 30) w) cs)"

definition denominator :: "(64 word \<times> float64) list \<Rightarrow> float64" where
  "denominator cs = foldl fadd 0 (map snd cs)"

definition truncatedScore :: "(64 word \<times> float64) list \<Rightarrow> int" where
  "truncatedScore cs =
     (if denominator cs > 0
      then clamp (intOfFloat (fmul (fdiv (numerator cs) (denominator cs)) 100)) 0 100
      else 0)"



text \<open>
  Discovery as the specification words it. A node is kept when it has a name and is not
  an excluded fork. The pinned part is the kept pinned nodes in query order; the
  non-pinned part is the kept repository nodes whose name is neither pinned nor met
  earlier in the list; the list is cut at a positive limit.
\<close>

definition keepNode :: "discoverOptions \<Rightarrow> repoGraphQL \<Rightarrow> bool" where
  "keepNode opt r \<longleftrightarrow> NameWithOwner r \<noteq> [] \<and> \<not> (optExcludeForks opt \<and> IsFork r)"

fun firstByName :: "string list \<Rightarrow> repoGraphQL list \<Rightarrow> repoGraphQL list" where
  "firstByName seen [] = []"
| "firstByName seen (r # rs) =
     (if NameWithOwner r \<in> set seen then firstByName seen rs
      else r # firstByName (NameWithOwner r # seen) rs)"

definition specPinned :: "discoverOptions \<Rightarrow> repoGraphQL list \<Rightarrow> RepoTarget list" where
  "specPinned opt pinnedNodes =
     (if optIncludePinned opt
      then map (\<lambda>r. repoGraphQLToTarget r True) (filter (keepNode opt) pinnedNodes) else [])"

definition pinnedNames :: "discoverOptions \<Rightarrow> repoGraphQL list \<Rightarrow> string list" where
  "pinnedNames opt pinnedNodes =
     (if optIncludePinned opt then map NameWithOwner (filter (keepNode opt) pinnedNodes) else [])"

definition specNonPinned :: "discoverOptions \<Rightarrow> repoGraphQL list \<Rightarrow> repoGraphQL list \<Rightarrow> RepoTarget list" where
  "specNonPinned opt pinnedNodes repoNodes =
     (if optIncludeNonPinned opt
      then map (\<lambda>r. repoGraphQLToTarget r False)
             (firstByName (pinnedNames opt pinnedNodes) (filter (keepNode opt) repoNodes))
      else [])"

definition cutAt :: "int \<Rightarrow> 'a list \<Rightarrow> 'a list" where
  "cutAt limit xs = (if limit > 0 then take (nat limit) xs else xs)"

definition descendingStars :: "RepoTarget list \<Rightarrow> bool" where
  "descendingStars rs = sorted_wrt (\<lambda>a b. Stars a \<ge> Stars b) rs"






text \<open>
  The retry policy as the specification words it: the number of transport failures met
  before the first other answer, among the three attempts, and the backoff of 300 ms
  times the attempt number (counted from 1) after each of them.
\<close>

definition isTransportError :: "sdkResponse \<Rightarrow> bool" where
  "isTransportError r = (case r of TransportError _ \<Rightarrow> True | Completion _ \<Rightarrow> False)"

definition failedAttempts :: "(nat \<Rightarrow> sdkResponse) \<Rightarrow> nat" where
  "failedAttempts sdk = length (takeWhile (\<lambda>k. isTransportError (sdk k)) [0, 1, 2])"

definition backoffs :: "nat \<Rightarrow> int list" where
  "backoffs k = map (\<lambda>i. 300 * (int i + 1)) [0..<k]"

section \<open>Example inputs\<close>

text \<open>A runtime whose case tables hold the entries of Go's tables for the runes of the
  examples (U+0130, U+017F and U+212A), and which rearranges nothing.\<close>

definition demoRuntime :: goRuntime where
  "demoRuntime =
     \<lparr>caseLower = (\<lambda>r. if r = 0x130 then 0x69 else if r = 0x212A then 0x6B else r),
      caseFold = (\<lambda>r. if r = 0x17F then 0x53 else if r = 0x212A then 0x4B else r),
      sortTies = (\<lambda>keys. []),
      rangeOrder = (\<lambda>keys. [])\<rparr>"

definition demoRepo :: RepoTarget where
  "demoRepo = \<lparr>Owner = ''octo'', Name = ''demo'', DefaultBranch = ''main'', Stars = 1,
     Pinned = True, Language = ''Go''\<rparr>"

definition demoChunk :: "string \<Rightarrow> FileChunk" where
  "demoChunk p = \<lparr>Path = p, StartLine = 1, EndLine = 1, Content = ''package main'',
     ChunkLanguage = ''Go''\<rparr>"

text \<open>A score with all six sub-scores equal to \<open>k\<close>: its total is \<open>6 * k\<close>.\<close>

definition demoScore :: "64 word \<Rightarrow> string list \<Rightarrow> ChunkScore" where
  "demoScore k ns = \<lparr>Readability = k, Design = k, Testing = k, Maintain = k, Idiomatic = k,
     Security = k, Notes = ns, Citations = []\<rparr>"

definition demoServices :: "string \<times> error option \<Rightarrow> services" where
  "demoServices shaAnswer =
     \<lparr>svcDiscoverUserRepos = (\<lambda>user opt. Inr [demoRepo]),
      svcGetLatestCommitSHA = (\<lambda>owner repo ref. shaAnswer),
      svcListTree = (\<lambda>owner repo ref sha. Inr [''main.go'']),
      svcReadFile = (\<lambda>owner repo ref path sha. Inr ''package main''),
      svcEvaluateScores = (\<lambda>repo chunks. ([], None)),
      svcEvaluateArch = (\<lambda>repo tree. \<lparr>ArchStrengths = [], ArchConsiderations = []\<rparr>)\<rparr>"

definition demoConfig :: Config where
  "demoConfig = \<lparr>ReposLimit = 5, ChunksPerRepo = 2, MaxChunkBytes = 1000,
     IncludePinned = True, IncludeNonPinned = True, ExcludeForks = False\<rparr>"

text \<open>A file system with one cached repository list, written at time 1000.\<close>

definition demoFS :: fileSystem where
  "demoFS = \<lparr>files = [''/c/ghp/repos-octo.json'' \<mapsto> \<lparr>modTime = 1000, content = ''[]''\<rparr>],
     faults = (\<lambda>op path. None)\<rparr>"


text \<open>The discovery scenario: pinned A (5 stars) and B (1), repositories B (1) and C (50).\<close>

definition demoNode :: "string \<Rightarrow> int \<Rightarrow> repoGraphQL" where
  "demoNode n st = \<lparr>NameWithOwner = ''octo/'' @ n, DefaultBranchRefName = ''main'',
     StargazerCount = st, IsFork = False, OwnerLogin = ''octo'', gqlName = n,
     PrimaryLanguageName = ''Go''\<rparr>"

definition demoTarget :: "string \<Rightarrow> int \<Rightarrow> bool \<Rightarrow> RepoTarget" where
  "demoTarget n st p = \<lparr>Owner = ''octo'', Name = n, DefaultBranch = ''main'', Stars = st,
     Pinned = p, Language = ''Go''\<rparr>"

definition demoOptions :: "int \<Rightarrow> discoverOptions" where
  "demoOptions limit = \<lparr>Limit = limit, optIncludePinned = True, optIncludeNonPinned = True,
     optExcludeForks = False\<rparr>"

text \<open>A world without a cached list for the user, where the query answers with the given
  pinned items and repositories.\<close>

definition demoWorld :: "repoGraphQL list \<Rightarrow> repoGraphQL list \<Rightarrow> discoverWorld" where
  "demoWorld pinnedNodes repoNodes =
     \<lparr>userCacheDir = Inr ''/c'', fsys = demoFS, readTime = 5000, writeTime = 6000,
      marshalRepos = (\<lambda>ts. Inr ''[]''), unmarshalRepos = (\<lambda>b t. (t, Some ''unexpected'')),
      graphqlQuery = (\<lambda>handle. Inr (pinnedNodes, repoNodes))\<rparr>"



text \<open>An SDK that fails twice and then answers with JSON wrapped in prose, and a decoder
  that accepts a text starting with a brace.\<close>

definition demoSdk :: "nat \<Rightarrow> sdkResponse" where
  "demoSdk k = (if k < 2 then TransportError ''timeout'' else Completion [''Sure: {a} done''])"

definition demoUnmarshal :: "string unmarshaller" where
  "demoUnmarshal b t = (if take 1 b = ''{'' then (b, None) else (t, Some ''invalid character''))"

section \<open>Verified properties\<close>

subsection \<open>Rounding to \<open>float64\<close>\<close>

lemma bitLen_bounds:
  "0 < k \<Longrightarrow> 1 \<le> bitLen k \<and> 2 ^ nat (bitLen k - 1) \<le> k \<and> k < 2 ^ nat (bitLen k)"
proof (induction k rule: bitLen.induct)
  case (1 k)
  show ?case
  proof (cases "k div 2 = 0")
    case True
    with "1.prems" have k1: "k = 1" by presburger
    have "bitLen 1 = 1"
      by (subst bitLen.simps) (simp add: bitLen.simps[of 0])
    with k1 show ?thesis by simp
  next
    case False
    with "1.prems" have pos: "0 < k div 2" by presburger
    from "1.IH"[OF _ pos] "1.prems"
    have ih: "1 \<le> bitLen (k div 2)" "2 ^ nat (bitLen (k div 2) - 1) \<le> k div 2"
      "k div 2 < 2 ^ nat (bitLen (k div 2))"
      by auto
    have bl: "bitLen k = 1 + bitLen (k div 2)"
      using "1.prems" by (subst bitLen.simps) simp
    have n1: "nat (bitLen k - 1) = Suc (nat (bitLen (k div 2) - 1))"
      using ih(1) bl by simp
    have n2: "nat (bitLen k) = Suc (nat (bitLen (k div 2)))"
      using ih(1) bl by simp
    have a: "2 * 2 ^ nat (bitLen (k div 2) - 1) \<le> k"
      using ih(2) by presburger
    have b: "k < 2 * 2 ^ nat (bitLen (k div 2))"
      using ih(3) by presburger
    show ?thesis
      unfolding n1 n2 power_Suc using a b bl ih(1) by simp
  qed
qed

lemma pow2_powi: "pow2 e = 2 powi e"
  by (simp add: pow2_def power_int_def field_simps)

lemma pow2_pos: "0 < pow2 e"
  by (simp add: pow2_powi)

lemma pow2_Suc: "pow2 (e + 1) = 2 * pow2 e"
  by (simp add: pow2_powi power_int_add)

lemma floorLog2_bounds:
  assumes "0 < q"
  shows "pow2 (floorLog2 q) \<le> q \<and> q < pow2 (floorLog2 q + 1)"
proof -
  obtain a b where ab: "quotient_of q = (a, b)" by (cases "quotient_of q")
  then have b: "0 < b" by (rule quotient_of_denom_pos)
  from ab have q: "q = of_int a / of_int b" by (rule quotient_of_div)
  with assms b have a: "0 < a" by (simp add: zero_less_divide_iff)
  let ?la = "bitLen a" and ?lb = "bitLen b"
  from bitLen_bounds[OF a] have A: "1 \<le> ?la" "2 ^ nat (?la - 1) \<le> a" "a < 2 ^ nat ?la" by auto
  from bitLen_bounds[OF b] have B: "1 \<le> ?lb" "2 ^ nat (?lb - 1) \<le> b" "b < 2 ^ nat ?lb" by auto
  have p2: "\<And>n. 0 \<le> n \<Longrightarrow> pow2 n = of_int (2 ^ nat n)"
    by (simp add: pow2_def)
  have Ar: "pow2 (?la - 1) \<le> of_int a" "(of_int a :: rat) < pow2 ?la"
    using A by (simp_all only: p2 of_int_le_iff of_int_less_iff diff_ge_0_iff_ge)
  have Br: "pow2 (?lb - 1) \<le> of_int b" "(of_int b :: rat) < pow2 ?lb"
    using B by (simp_all only: p2 of_int_le_iff of_int_less_iff diff_ge_0_iff_ge)
  have bpos: "(0::rat) < of_int b" using b by simp
  have lo: "pow2 (?la - ?lb - 1) < q"
  proof -
    have "pow2 (?la - ?lb - 1) * of_int b < pow2 (?la - ?lb - 1) * pow2 ?lb"
      using Br(2) pow2_pos by (simp add: mult_strict_left_mono)
    also have "\<dots> = pow2 (?la - 1)"
      by (simp add: pow2_powi power_int_add[symmetric])
    also have "\<dots> \<le> of_int a" by (rule Ar(1))
    finally show ?thesis
      using bpos by (simp add: q pos_less_divide_eq)
  qed
  have hi: "q < pow2 (?la - ?lb + 1)"
  proof -
    have "of_int a < pow2 ?la" by (rule Ar(2))
    also have "\<dots> = pow2 (?la - ?lb + 1) * pow2 (?lb - 1)"
      by (simp add: pow2_powi power_int_add[symmetric])
    also have "\<dots> \<le> pow2 (?la - ?lb + 1) * of_int b"
      using Br(1) pow2_pos by (simp add: mult_left_mono less_imp_le)
    finally show ?thesis
      using bpos by (simp add: q pos_divide_less_eq)
  qed
  show ?thesis
  proof (cases "pow2 (?la - ?lb) \<le> q")
    case True
    then have "floorLog2 q = ?la - ?lb"
      by (simp add: floorLog2_def ab)
    with True hi show ?thesis by simp
  next
    case False
    then have "floorLog2 q = ?la - ?lb - 1"
      by (simp add: floorLog2_def ab)
    with False lo show ?thesis by simp
  qed
qed

lemma roundHalfEven_error: "\<bar>of_int (roundHalfEven x) - x\<bar> \<le> 1 / 2"
proof -
  have "of_int \<lfloor>x\<rfloor> \<le> x" "x < of_int \<lfloor>x\<rfloor> + 1"
    by linarith+
  then show ?thesis
    by (auto simp: roundHalfEven_def Let_def abs_le_iff)
qed

text \<open>\<open>fl64\<close> rounds: the result is within half a unit in the last place of the exact
  value, and it has a significand of at most 53 bits.\<close>

lemma fl64_error: "\<bar>fl64 q - q\<bar> \<le> \<bar>q\<bar> / 2 ^ 53"
proof (cases "q = 0")
  case True
  then show ?thesis by (simp add: fl64_def)
next
  case False
  let ?e = "floorLog2 \<bar>q\<bar>"
  let ?u = "pow2 (?e - 52)"
  from False have "0 < \<bar>q\<bar>" by simp
  from floorLog2_bounds[OF this] have e: "pow2 ?e \<le> \<bar>q\<bar>" by simp
  have u: "0 < ?u" by (rule pow2_pos)
  have "fl64 q - q = (of_int (roundHalfEven (q / ?u)) - q / ?u) * ?u"
    using False u by (simp add: fl64_def Let_def field_simps)
  then have "\<bar>fl64 q - q\<bar> = \<bar>of_int (roundHalfEven (q / ?u)) - q / ?u\<bar> * ?u"
    using u by (simp add: abs_mult)
  also have "\<dots> \<le> 1 / 2 * ?u"
    using roundHalfEven_error[of "q / ?u"] u by (simp add: mult_right_mono less_imp_le)
  also have "\<dots> = pow2 ?e / 2 ^ 53"
    by (simp add: pow2_powi power_int_diff)
  also have "\<dots> \<le> \<bar>q\<bar> / 2 ^ 53"
    using e by (simp add: divide_right_mono)
  finally show ?thesis .
qed

lemma fl64_significand:
  "\<exists>m e. fl64 q = of_int m * pow2 e \<and> \<bar>m\<bar> \<le> 2 ^ 53"
proof (cases "q = 0")
  case True
  then have "fl64 q = of_int 0 * pow2 0 \<and> \<bar>0 :: int\<bar> \<le> 2 ^ 53" by (simp add: fl64_def)
  then show ?thesis by blast
next
  case False
  let ?e = "floorLog2 \<bar>q\<bar>"
  let ?u = "pow2 (?e - 52)"
  let ?m = "roundHalfEven (q / ?u)"
  from False have "0 < \<bar>q\<bar>" by simp
  from floorLog2_bounds[OF this] have hi: "\<bar>q\<bar> < pow2 (?e + 1)" by simp
  have u: "0 < ?u" by (rule pow2_pos)
  have "pow2 (?e + 1) = 2 ^ 53 * ?u"
    by (simp add: pow2_powi power_int_diff power_int_add)
  with hi u have x: "\<bar>q / ?u\<bar> < 2 ^ 53"
    by (simp add: pos_divide_less_eq)
  from x have lt: "q / ?u < 2 ^ 53" and gt: "- (2 ^ 53) < q / ?u"
    by linarith+
  have f1: "- (2 ^ 53) \<le> \<lfloor>q / ?u\<rfloor>"
    using gt by (simp add: le_floor_iff less_imp_le)
  have f2: "\<lfloor>q / ?u\<rfloor> < 2 ^ 53"
    using lt by (simp add: floor_less_iff)
  have "\<lfloor>q / ?u\<rfloor> \<le> ?m" "?m \<le> \<lfloor>q / ?u\<rfloor> + 1"
    by (auto simp: roundHalfEven_def Let_def)
  with f1 f2 have "- (2 ^ 53) \<le> ?m \<and> ?m \<le> 2 ^ 53" by linarith
  then have "\<bar>?m\<bar> \<le> 2 ^ 53" by (simp add: abs_le_iff)
  moreover have "fl64 q = of_int ?m * ?u"
    using False by (simp add: fl64_def Let_def)
  ultimately show ?thesis by blast
qed


subsection \<open>Rearrangements and \<open>slices.SortFunc\<close>\<close>

lemma mset_remove_nth:
  "i < length xs \<Longrightarrow> mset (take i xs @ drop (Suc i) xs) + {#xs ! i#} = mset xs"
proof -
  assume "i < length xs"
  then have "xs = take i xs @ xs ! i # drop (Suc i) xs"
    by (rule id_take_nth_drop)
  then have "mset xs = mset (take i xs @ xs ! i # drop (Suc i) xs)"
    by simp
  then show ?thesis by simp
qed

lemma mset_permuteBy: "mset (permuteBy ps xs) = mset xs"
proof (induction ps xs rule: permuteBy.induct)
  case (1 xs)
  then show ?case by simp
next
  case (2 p ps xs)
  show ?case
  proof (cases "xs = []")
    case True
    then show ?thesis by simp
  next
    case False
    then have i: "p mod length xs < length xs" by simp
    from 2[OF False refl] mset_remove_nth[OF i] False show ?thesis
      by (simp add: Let_def)
  qed
qed

lemma set_permuteBy: "set (permuteBy ps xs) = set xs"
  using mset_permuteBy[of ps xs] by (metis set_mset_mset)

lemma length_permuteBy: "length (permuteBy ps xs) = length xs"
  using mset_permuteBy[of ps xs] by (metis size_mset)

text \<open>Every rearrangement of a list is reached by some picks.\<close>

lemma permuteBy_any: "mset ys = mset xs \<Longrightarrow> \<exists>ps. permuteBy ps xs = ys"
proof (induction ys arbitrary: xs)
  case Nil
  then have "permuteBy [] xs = []" by simp
  then show ?case ..
next
  case (Cons y ys)
  from Cons.prems have "y \<in> set xs"
    by (metis list.set_intros(1) set_mset_mset)
  then obtain i where i: "i < length xs" "xs ! i = y"
    by (auto simp: in_set_conv_nth)
  let ?xs' = "take i xs @ drop (Suc i) xs"
  have "mset ?xs' + {#y#} = mset ys + {#y#}"
    using mset_remove_nth[OF i(1)] i(2) Cons.prems by simp
  then have "mset ys = mset ?xs'" by simp
  from Cons.IH[OF this] obtain ps where ps: "permuteBy ps ?xs' = ys" ..
  have "xs \<noteq> []" using i(1) by auto
  then have "permuteBy (i # ps) xs = y # ys"
    using i ps by (simp add: Let_def)
  then show ?case ..
qed

lemma mset_SortFunc: "mset (SortFunc rt key xs) = mset xs"
  by (simp add: SortFunc_def mset_permuteBy)

lemma set_SortFunc: "set (SortFunc rt key xs) = set xs"
  by (simp add: SortFunc_def set_permuteBy)

lemma length_SortFunc: "length (SortFunc rt key xs) = length xs"
  by (simp add: SortFunc_def length_permuteBy)

lemma sorted_SortFunc: "sorted (map key (SortFunc rt key xs))"
  by (simp add: SortFunc_def)

text \<open>Every sorted rearrangement of a long slice is a result of \<open>SortFunc\<close> for some
  runtime; a slice of at most 12 elements is sorted stably.\<close>

lemma SortFunc_any:
  assumes "mset ys = mset xs" and "sorted (map key ys)"
  shows "\<exists>ps. sort_key key (permuteBy ps xs) = ys"
proof -
  from permuteBy_any[OF assms(1)] obtain ps where "permuteBy ps xs = ys" ..
  moreover have "sort_key key ys = ys"
    using assms(2) by (rule sort_key_id_if_sorted)
  ultimately have "sort_key key (permuteBy ps xs) = ys" by simp
  then show ?thesis ..
qed

lemma SortFunc_short: "length xs \<le> 12 \<Longrightarrow> SortFunc rt key xs = sort_key key xs"
  by (simp add: SortFunc_def)

subsection \<open>Lower case\<close>


text \<open>With Go's entry for U+0130, the capital I with a dot, \<open>ToLower\<close> gives an ASCII \<open>i\<close>.\<close>

lemma ToLower_dotted_I:
  "ToLower demoRuntime ([CHR 0xC4, CHR 0xB0] @ ''DIOMATIC'') = ''idiomatic''"
  by code_simp

subsection \<open>File selection\<close>

lemma scorePath_nested_excluded:
  "Contains (ToLower rt p) ''/vendor/'' \<or> Contains (ToLower rt p) ''/node_modules/''
     \<or> Contains (ToLower rt p) ''/.git/'' \<or> Contains (ToLower rt p) ''/build/''
     \<or> Contains (ToLower rt p) ''/dist/'' \<Longrightarrow> scorePath rt p = 0"
  by (simp add: scorePath_def Let_def)

text \<open>
  Claim C3. Every path under a vendor, build, dist, node_modules or .git directory, also
  when that directory is the first path component, and every path with a binary-asset
  extension is said to score 0. \<open>scorePath\<close> looks for the directory name between two
  slashes, so a directory at the root of the tree is not recognised: \<open>vendor/x.go\<close>
  scores 60 and \<open>node_modules/a/index.js\<close> scores 60. The test for \<open>docs/\<close> returns
  before the test for asset extensions, so \<open>docs/logo.png\<close> scores 1.
\<close>

theorem scorePath_top_level_vendor_not_excluded:
  "scorePath rt ''vendor/x.go'' = 60 \<and> scorePath rt ''node_modules/a/index.js'' = 60
     \<and> scorePath rt ''docs/logo.png'' = 1"
  by code_simp

lemma takeLoop_take:
  "takeLoop sps out n = out @ map fst (take (max 1 (nat (n - int (length out)))) sps)"
proof (induction sps arbitrary: out)
  case Nil
  then show ?case by simp
next
  case (Cons sp sps)
  show ?case
  proof (cases "int (length out) + 1 \<ge> n")
    case True
    then have "max 1 (nat (n - int (length out))) = 1" by auto
    with True show ?thesis by simp
  next
    case False
    have a: "nat (n - int (length (out @ [fst sp]))) = nat (n - int (length out)) - 1"
      by simp
    have b: "nat (n - int (length out)) - 1 \<ge> 1" using False by simp
    have c: "max 1 (nat (n - int (length out))) = Suc (nat (n - int (length out)) - 1)"
      using b by simp
    have d: "max 1 (nat (n - int (length (out @ [fst sp])))) = nat (n - int (length out)) - 1"
      using b unfolding a by simp
    have "takeLoop (sp # sps) out n = takeLoop sps (out @ [fst sp]) n"
      using False by (simp add: Let_def)
    also have "\<dots> = (out @ [fst sp]) @ map fst (take (nat (n - int (length out)) - 1) sps)"
      unfolding Cons.IH d ..
    also have "\<dots> = out @ map fst (take (max 1 (nat (n - int (length out)))) (sp # sps))"
      unfolding c by simp
    finally show ?thesis .
  qed
qed


lemma pickPaths_take:
  "pickPaths rt entries n =
     map fst (take (max 1 (nat n)) (sortDesc rt (scoredPaths rt entries)))"
  by (simp add: pickPaths_def takeLoop_take)

lemma set_sortDesc: "set (sortDesc rt sps) = set sps"
  by (simp add: sortDesc_def set_SortFunc)

lemma sorted_sortDesc: "sorted (map (\<lambda>sp. - snd sp) (sortDesc rt sps))"
  by (simp add: sortDesc_def sorted_SortFunc)

lemma scoredPaths_snd:
  "sp \<in> set (scoredPaths rt entries) \<Longrightarrow>
     snd sp = scorePath rt (fst sp) \<and> fst sp \<in> set entries \<and> scorePath rt (fst sp) > 0"
  by (auto simp: scoredPaths_def)

text \<open>What \<open>pickPaths\<close> does guarantee: the bound for a positive chunk count, and for
  every chunk count that the result holds input paths of positive score in descending
  order of score.\<close>

lemma pickPaths_subset:
  "p \<in> set (pickPaths rt entries n) \<Longrightarrow> p \<in> set entries \<and> scorePath rt p > 0"
  unfolding pickPaths_take
  using scoredPaths_snd set_sortDesc
  by (smt (verit) image_iff in_set_takeD list.set_map)

lemma pickPaths_length: "1 \<le> n \<Longrightarrow> int (length (pickPaths rt entries n)) \<le> n"
  by (simp add: pickPaths_take)

lemma pickPaths_sorted:
  "sorted_wrt (\<lambda>p q. scorePath rt p \<ge> scorePath rt q) (pickPaths rt entries n)"
proof -
  let ?xs = "take (max 1 (nat n)) (sortDesc rt (scoredPaths rt entries))"
  have s: "sorted (map (\<lambda>sp. - snd sp) ?xs)"
    using sorted_sortDesc[of rt "scoredPaths rt entries"]
    by (simp add: take_map[symmetric] sorted_wrt_take)
  have eq: "\<forall>sp \<in> set ?xs. snd sp = scorePath rt (fst sp)"
    using scoredPaths_snd set_sortDesc by (metis in_set_takeD)
  have sw: "sorted_wrt (\<lambda>a b. snd a \<ge> snd b) ?xs"
    using s by (simp add: sorted_wrt_map sorted_map)
  have "sorted_wrt (\<lambda>a b. scorePath rt (fst a) \<ge> scorePath rt (fst b)) ?xs"
  proof (rule sorted_wrt_mono_rel[OF _ sw])
    fix x y
    assume "x \<in> set ?xs" "y \<in> set ?xs" "snd x \<ge> snd y"
    with eq show "scorePath rt (fst x) \<ge> scorePath rt (fst y)" by simp
  qed
  then show ?thesis
    by (simp add: pickPaths_take sorted_wrt_map)
qed

text \<open>
  Claim C4. For every chunk count \<open>n\<close>, \<open>n = 0\<close> included, \<open>pickPaths\<close> is said to return at
  most \<open>n\<close> paths. The loop appends a path and only then compares the length of the output
  with \<open>n\<close>, so with \<open>n = 0\<close> it returns one path whenever a path has a positive score.
\<close>

theorem pickPaths_zero_chunks_returns_one_path:
  "pickPaths rt [''README.md'', ''main.go''] 0 = [''main.go'']
     \<and> \<not> int (length (pickPaths rt [''README.md'', ''main.go''] 0)) \<le> 0"
  by code_simp

subsection \<open>Aggregation\<close>

lemma noteStep_acc [simp]:
  "sum_acc (noteStep rt st n) = sum_acc st" "cnt (noteStep rt st n) = cnt st"
  by (simp_all add: noteStep_def Let_def)

lemma foldl_noteStep_acc [simp]:
  "sum_acc (foldl (noteStep rt) st ns) = sum_acc st" "cnt (foldl (noteStep rt) st ns) = cnt st"
  by (induction ns arbitrary: st) simp_all

lemma scoreLoop_sums:
  "i + length scs \<le> length chunks \<Longrightarrow>
   \<exists>st'. scoreLoop rt repo chunks i scs st = Done st'
     \<and> sum_acc st' = foldl fadd (sum_acc st)
          (map (\<lambda>(t, w). fmul (fdiv (floatOfInt t) 30) w) (contributions rt chunks i scs))
     \<and> cnt st' = foldl fadd (cnt st) (map snd (contributions rt chunks i scs))"
proof (induction scs arbitrary: i st)
  case Nil
  then show ?case by (simp add: contributions_def)
next
  case (Cons sc scs)
  from Cons.prems have i: "i < length chunks" and rest: "Suc i + length scs \<le> length chunks"
    by simp_all
  show ?case
  proof (cases "total sc = 0")
    case True
    then have step: "chunkStep rt repo chunks i sc st = Done st"
      by (simp add: chunkStep_def)
    have c: "contributions rt chunks i (sc # scs) = contributions rt chunks (Suc i) scs"
      using True by (simp add: contributions_def)
    show ?thesis
      using Cons.IH[OF rest, of st] by (simp add: step c)
  next
    case False
    obtain st1 where step: "chunkStep rt repo chunks i sc st = Done st1"
      and s1: "sum_acc st1 = fadd (sum_acc st)
                 (fmul (fdiv (floatOfInt (total sc)) 30) (weight rt (Path (chunks ! i))))"
      and c1: "cnt st1 = fadd (cnt st) (weight rt (Path (chunks ! i)))"
      using False i by (simp add: chunkStep_def Let_def)
    have c: "contributions rt chunks i (sc # scs) =
        (total sc, weight rt (Path (chunks ! i))) # contributions rt chunks (Suc i) scs"
      using False by (simp add: contributions_def)
    show ?thesis
      using Cons.IH[OF rest, of st1] by (simp add: step c s1 c1)
  qed
qed

text \<open>
  Claim C1, as stated, at its own example: two chunks with totals 18 and 24, the second
  under \<open>cmd/\<close> (weight 1.2). The weighted average is 70.909\<dots> per cent; rounding gives
  the claim's 71, but \<open>evaluateRepo\<close> converts with \<open>int(\<dots>)\<close> and returns 70.
\<close>

theorem repoScore_example_is_70_not_71:
  "\<forall>rt. repoScore rt demoRepo [demoChunk ''main.go'', demoChunk ''cmd/main.go'']
      [demoScore 3 [], demoScore 4 []] = Done 70
   \<and> total (demoScore 3 []) = 18 \<and> total (demoScore 4 []) = 24
   \<and> weight rt ''main.go'' = 1 \<and> weight rt ''cmd/main.go'' = fl64 (12 / 10)
   \<and> clamp (round ((18 / 30 * 1 + 24 / 30 * (12 / 10)) / (1 + 12 / 10) * 100 :: rat)) 0 100 = 71"
  by (rule allI) code_simp

text \<open>
  Claim C1, amended. Whenever every score has its chunk, the repository score is
  \<open>clamp(int(f \<times> 100), 0, 100)\<close>, the percentage with its fraction dropped, where \<open>f\<close> is
  the \<open>float64\<close> quotient of the numerator and the denominator accumulated from the
  chunks with a non-zero total, and 0 when no chunk contributes.
\<close>

theorem repoScore_truncated_weighted_average:
  assumes "length scores \<le> length chunks"
  shows "repoScore rt repo chunks scores
     = Done (truncatedScore (contributions rt chunks 0 scores))"
proof -
  from scoreLoop_sums[of 0 scores chunks rt repo initState] assms
  obtain st' where l: "scoreLoop rt repo chunks 0 scores initState = Done st'"
    and s: "sum_acc st' = numerator (contributions rt chunks 0 scores)"
    and c: "cnt st' = denominator (contributions rt chunks 0 scores)"
    by (auto simp: numerator_def denominator_def initState_def)
  show ?thesis
    by (simp add: repoScore_def l finalScore_def truncatedScore_def s c)
qed

theorem repoScore_truncated_weighted_average_witness:
  "\<forall>rt. repoScore rt demoRepo [demoChunk ''main.go'', demoChunk ''cmd/main.go'']
      [demoScore 3 [], demoScore 4 []] = Done 70"
proof
  fix rt
  have "truncatedScore (contributions rt [demoChunk ''main.go'', demoChunk ''cmd/main.go''] 0
          [demoScore 3 [], demoScore 4 []]) = 70"
    by code_simp
  then show "repoScore rt demoRepo [demoChunk ''main.go'', demoChunk ''cmd/main.go'']
      [demoScore 3 [], demoScore 4 []] = Done 70"
    using repoScore_truncated_weighted_average
      [of "[demoScore 3 [], demoScore 4 []]" "[demoChunk ''main.go'', demoChunk ''cmd/main.go'']"
          rt demoRepo]
    by simp
qed







subsection \<open>Failure of commit resolution\<close>

lemma evaluateAll_panic:
  "r \<in> set rs \<Longrightarrow> evaluateRepo rt s cfg r = Panic m \<Longrightarrow> \<exists>m'. evaluateAll rt s cfg rs = Panic m'"
  by (induction rs) (auto split: outcome.splits prod.splits)

text \<open>
  Claim C2. No step below \<open>Submit\<close> is said to end the run; in particular a failed
  commit resolution, or any string it returns, should only degrade the repository's
  result. \<open>evaluateRepo\<close> prints its warning and then slices \<open>sha[:7]\<close>, which panics for
  a string of fewer than seven bytes; a failed \<open>GetLatestCommitSHA\<close> returns the empty
  string. The panic of one goroutine ends \<open>Submit\<close> for every repository.
\<close>

theorem evaluateRepo_short_sha_panics:
  assumes "svcDiscoverUserRepos s user
             \<lparr>Limit = ReposLimit cfg, optIncludePinned = IncludePinned cfg,
              optIncludeNonPinned = IncludeNonPinned cfg, optExcludeForks = ExcludeForks cfg\<rparr>
           = Inr repos"
    and "repo \<in> set repos"
    and "length (fst (svcGetLatestCommitSHA s (Owner repo) (Name repo) (DefaultBranch repo))) < 7"
  shows "evaluateRepo rt s cfg repo = Panic ''slice bounds out of range''
     \<and> (\<exists>m. Submit rt s cfg user = Panic m)
     \<and> fst (GetLatestCommitSHA (Inl e)) = []"
proof -
  have p: "evaluateRepo rt s cfg repo = Panic ''slice bounds out of range''"
    using assms(3)
    by (cases "svcGetLatestCommitSHA s (Owner repo) (Name repo) (DefaultBranch repo)")
       (simp add: evaluateRepo_def)
  from evaluateAll_panic[OF assms(2) p] obtain m where "evaluateAll rt s cfg repos = Panic m" ..
  moreover have "repos \<noteq> []" using assms(2) by auto
  ultimately have "Submit rt s cfg user = Panic m"
    using assms(1) by (simp add: Submit_def)
  with p show ?thesis by (auto simp: GetLatestCommitSHA_def)
qed

theorem evaluateRepo_short_sha_panics_witness:
  "\<forall>rt. evaluateRepo rt (demoServices (GetLatestCommitSHA (Inl ''404 Not Found''))) demoConfig
            demoRepo
      = Panic ''slice bounds out of range''
   \<and> (\<exists>m. Submit rt (demoServices (GetLatestCommitSHA (Inl ''404 Not Found''))) demoConfig ''octo''
            = Panic m)"
proof
  fix rt
  show "evaluateRepo rt (demoServices (GetLatestCommitSHA (Inl ''404 Not Found''))) demoConfig
            demoRepo
      = Panic ''slice bounds out of range''
   \<and> (\<exists>m. Submit rt (demoServices (GetLatestCommitSHA (Inl ''404 Not Found''))) demoConfig ''octo''
            = Panic m)"
    using evaluateRepo_short_sha_panics
      [of "demoServices (GetLatestCommitSHA (Inl ''404 Not Found''))" "''octo''" demoConfig
          "[demoRepo]" demoRepo rt]
    by (simp add: demoServices_def GetLatestCommitSHA_def)
qed

subsection \<open>Repository discovery\<close>

lemma mapSet_new: "k \<notin> fst ` set m \<Longrightarrow> mapSet k v m = m @ [(k, v)]"
  by (simp add: mapSet_def)

lemma pinned_fold:
  "distinct (map NameWithOwner (filter (keepNode opt) rs)) \<Longrightarrow>
   NameWithOwner ` set (filter (keepNode opt) rs) \<inter> fst ` set m = {} \<Longrightarrow>
   foldl (pinnedStep opt) (m, ord) rs =
     (m @ map (\<lambda>r. (NameWithOwner r, repoGraphQLToTarget r True)) (filter (keepNode opt) rs),
      ord @ map NameWithOwner (filter (keepNode opt) rs))"
proof (induction rs arbitrary: m ord)
  case Nil
  then show ?case by simp
next
  case (Cons r rs)
  show ?case
  proof (cases "keepNode opt r")
    case False
    then have "pinnedStep opt (m, ord) r = (m, ord)"
      by (auto simp: pinnedStep_def keepNode_def)
    with False Cons show ?thesis by simp
  next
    case True
    from True Cons.prems(2) have new: "NameWithOwner r \<notin> fst ` set m" by auto
    from True have step: "pinnedStep opt (m, ord) r =
        (m @ [(NameWithOwner r, repoGraphQLToTarget r True)], ord @ [NameWithOwner r])"
      by (auto simp: pinnedStep_def keepNode_def mapSet_new[OF new])
    have d: "distinct (map NameWithOwner (filter (keepNode opt) rs))"
      using Cons.prems(1) True by simp
    have dj: "NameWithOwner ` set (filter (keepNode opt) rs)
        \<inter> fst ` set (m @ [(NameWithOwner r, repoGraphQLToTarget r True)]) = {}"
      using Cons.prems True by auto
    show ?thesis
      using Cons.IH[OF d dj] True by (simp add: step)
  qed
qed

lemma firstByName_cong: "set s = set s' \<Longrightarrow> firstByName s rs = firstByName s' rs"
proof (induction rs arbitrary: s s')
  case Nil
  then show ?case by simp
next
  case (Cons r rs)
  have "firstByName (NameWithOwner r # s) rs = firstByName (NameWithOwner r # s') rs"
    by (rule Cons.IH) (simp add: Cons.prems)
  moreover have "firstByName s rs = firstByName s' rs"
    by (rule Cons.IH) (rule Cons.prems)
  ultimately show ?case using Cons.prems by simp
qed

lemma firstByName_names:
  "distinct (map NameWithOwner (firstByName seen rs))
   \<and> NameWithOwner ` set (firstByName seen rs) \<inter> set seen = {}"
  by (induction seen rs rule: firstByName.induct) auto

lemma nonPinned_fold:
  "foldl (nonPinnedStep opt) m rs =
     m @ map (\<lambda>r. (NameWithOwner r, repoGraphQLToTarget r False))
           (firstByName (map fst m) (filter (keepNode opt) rs))"
proof (induction rs arbitrary: m)
  case Nil
  then show ?case by simp
next
  case (Cons r rs)
  show ?case
  proof (cases "keepNode opt r")
    case False
    then have "nonPinnedStep opt m r = m"
      by (auto simp: nonPinnedStep_def keepNode_def)
    with False Cons show ?thesis by simp
  next
    case True
    show ?thesis
    proof (cases "NameWithOwner r \<in> fst ` set m")
      case present: True
      then have "map_of m (NameWithOwner r) \<noteq> None"
        by (simp add: map_of_eq_None_iff)
      then have "nonPinnedStep opt m r = m"
        by (simp add: nonPinnedStep_def)
      with True present Cons show ?thesis by simp
    next
      case absent: False
      then have "map_of m (NameWithOwner r) = None"
        by (simp add: map_of_eq_None_iff)
      with True have step:
        "nonPinnedStep opt m r = m @ [(NameWithOwner r, repoGraphQLToTarget r False)]"
        by (auto simp: nonPinnedStep_def keepNode_def mapSet_new[OF absent])
      have cong: "firstByName (map fst m @ [NameWithOwner r]) (filter (keepNode opt) rs)
          = firstByName (NameWithOwner r # map fst m) (filter (keepNode opt) rs)"
        by (rule firstByName_cong) auto
      show ?thesis
        using True absent by (simp add: step Cons.IH cong)
    qed
  qed
qed

lemma mapDelete_head: "k \<notin> fst ` set m \<Longrightarrow> mapDelete k ((k, v) # m) = m"
  by (force simp: mapDelete_def filter_id_conv)

lemma targets_fold:
  "distinct (map fst (P @ N)) \<Longrightarrow>
   foldl targetsStep (ts, P @ N) (map fst P) = (ts @ map snd P, N)"
proof (induction P arbitrary: ts)
  case Nil
  then show ?case by simp
next
  case (Cons kv P)
  obtain k v where kv: "kv = (k, v)" by (cases kv)
  from Cons.prems kv have notin: "k \<notin> fst ` set (P @ N)" and d: "distinct (map fst (P @ N))"
    by auto
  have step: "targetsStep (ts, kv # P @ N) k = (ts @ [v], P @ N)"
    using mapDelete_head[OF notin] by (simp add: targetsStep_def kv)
  show ?case
    using Cons.IH[OF d, of "ts @ [v]"] by (simp add: kv step[unfolded kv])
qed

lemma collectRepos_spec:
  assumes "distinct (pinnedNames opt pinnedNodes)"
  shows "\<exists>m. collectRepos opt pinnedNodes repoNodes = (specPinned opt pinnedNodes, m)
     \<and> map snd m = specNonPinned opt pinnedNodes repoNodes"
proof -
  let ?P = "if optIncludePinned opt then filter (keepNode opt) pinnedNodes else []"
  let ?N = "if optIncludeNonPinned opt
            then firstByName (map NameWithOwner ?P) (filter (keepNode opt) repoNodes) else []"
  let ?mP = "map (\<lambda>r. (NameWithOwner r, repoGraphQLToTarget r True)) ?P"
  let ?mN = "map (\<lambda>r. (NameWithOwner r, repoGraphQLToTarget r False)) ?N"
  have dP: "distinct (map NameWithOwner ?P)"
    using assms by (simp add: pinnedNames_def split: if_splits)
  have a: "(if optIncludePinned opt then foldl (pinnedStep opt) ([], []) pinnedNodes else ([], []))
      = (?mP, map NameWithOwner ?P)"
  proof (cases "optIncludePinned opt")
    case True
    with dP have "distinct (map NameWithOwner (filter (keepNode opt) pinnedNodes))"
      by simp
    from pinned_fold[OF this, of "[]" "[]"] True show ?thesis
      by simp
  next
    case False
    then show ?thesis by simp
  qed
  have keys: "map fst ?mP = map NameWithOwner ?P"
    by (simp add: comp_def)
  have b: "(if optIncludeNonPinned opt then foldl (nonPinnedStep opt) ?mP repoNodes else ?mP)
      = ?mP @ ?mN"
    unfolding nonPinned_fold keys by simp
  have dN: "distinct (map NameWithOwner ?N)
      \<and> NameWithOwner ` set ?N \<inter> set (map NameWithOwner ?P) = {}"
    using firstByName_names[of "map NameWithOwner ?P" "filter (keepNode opt) repoNodes"]
    by simp
  have keysN: "map fst ?mN = map NameWithOwner ?N"
    by (simp add: comp_def)
  have d: "distinct (map fst (?mP @ ?mN))"
    using dP dN unfolding map_append keys keysN distinct_append set_map by blast
  have c: "foldl targetsStep ([], ?mP @ ?mN) (map NameWithOwner ?P) = (map snd ?mP, ?mN)"
  proof -
    from targets_fold[OF d, of "[]"]
    have "foldl targetsStep ([], ?mP @ ?mN) (map fst ?mP) = ([] @ map snd ?mP, ?mN)" .
    then show ?thesis unfolding keys by simp
  qed
  have "collectRepos opt pinnedNodes repoNodes = (map snd ?mP, ?mN)"
    by (simp only: collectRepos_def a Let_def prod.case b c)
  moreover have "map snd ?mP = specPinned opt pinnedNodes"
    by (simp add: specPinned_def comp_def)
  moreover have "map snd ?mN = specNonPinned opt pinnedNodes repoNodes"
    by (simp add: specNonPinned_def pinnedNames_def comp_def)
  ultimately show ?thesis by simp
qed

lemma mset_rangeMap: "mset (rangeMap rt m) = mset (map snd m)"
  by (simp add: rangeMap_def mset_permuteBy)

lemma sortByStars_descending: "descendingStars (sortByStars rt rs)"
proof -
  have "sorted (map (\<lambda>r. - Stars r) (sortByStars rt rs))"
    by (simp add: sortByStars_def sorted_SortFunc)
  then show ?thesis
    by (simp add: descendingStars_def sorted_map)
qed

lemma cut: "(if n > 0 \<and> int (length xs) > n then take (nat n) xs else xs) = cutAt n xs"
  by (auto simp: cutAt_def)

text \<open>
  What \<open>DiscoverUserRepos\<close> does guarantee, for every order of the range over the map and
  every order that the sort leaves among equal star counts: when no repository is pinned
  twice, the result is the kept pinned repositories in query order, followed by the kept
  repositories that are not pinned, each once, in some order of descending stars, cut at
  a positive limit.
\<close>

lemma mergeRepos_pinned_then_stars:
  assumes "distinct (pinnedNames opt pinnedNodes)"
  shows "\<exists>R. mergeRepos rt opt pinnedNodes repoNodes
                = cutAt (Limit opt) (specPinned opt pinnedNodes @ R)
           \<and> mset R = mset (specNonPinned opt pinnedNodes repoNodes)
           \<and> descendingStars R"
proof -
  from collectRepos_spec[OF assms] obtain m
    where c: "collectRepos opt pinnedNodes repoNodes = (specPinned opt pinnedNodes, m)"
      and m: "map snd m = specNonPinned opt pinnedNodes repoNodes"
    by blast
  let ?R = "sortByStars rt (rangeMap rt m)"
  have "mergeRepos rt opt pinnedNodes repoNodes
      = cutAt (Limit opt) (specPinned opt pinnedNodes @ ?R)"
    by (simp add: mergeRepos_def c Let_def cut del: length_append)
  moreover have "mset ?R = mset (specNonPinned opt pinnedNodes repoNodes)"
    by (simp add: sortByStars_def mset_SortFunc mset_rangeMap m[symmetric])
  moreover have "descendingStars ?R"
    by (rule sortByStars_descending)
  ultimately show ?thesis by blast
qed

text \<open>Among repositories with different star counts the order is the same in every run.\<close>

lemma sortByStars_rangeMap:
  assumes "inj_on Stars (snd ` set m)"
  shows "sortByStars rt (rangeMap rt m) = sort_key (\<lambda>r. - Stars r) (map snd m)"
proof -
  let ?key = "\<lambda>r. - Stars r"
  have inj: "inj_on ?key (set zs)" if "mset zs = mset (map snd m)" for zs
  proof -
    from that have "set zs = snd ` set m"
      by (metis set_mset_mset list.set_map)
    with assms show ?thesis
      by (auto simp: inj_on_def)
  qed
  have eq: "sort_key ?key zs = sort_key ?key (map snd m)" if "mset zs = mset (map snd m)" for zs
    by (rule sort_key_inj_key_eq) (use that inj[OF that] in simp_all)
  show ?thesis
    unfolding sortByStars_def SortFunc_def
    by (auto intro!: eq simp: mset_permuteBy mset_rangeMap)
qed

lemma mergeRepos_distinct_stars:
  assumes "collectRepos opt pinnedNodes repoNodes = (ts, m)" and "inj_on Stars (snd ` set m)"
  shows "mergeRepos rt opt pinnedNodes repoNodes
     = cutAt (Limit opt) (ts @ sort_key (\<lambda>r. - Stars r) (map snd m))"
  by (simp add: mergeRepos_def assms(1) Let_def cut sortByStars_rangeMap[OF assms(2)]
      del: length_append)

lemma DiscoverUserRepos_demoWorld:
  "fst (DiscoverUserRepos rt (demoWorld pinnedNodes repoNodes) ''alice'' opt)
     = Inr (mergeRepos rt opt pinnedNodes repoNodes)"
  by (simp add: DiscoverUserRepos_def getCachePath_def demoWorld_def readCache_def osStat_def
      demoFS_def Let_def split: prod.splits)

text \<open>The scenario of claim C5: pinned A (5 stars) and B (1), repositories B (1) and
  C (50). With the limit 2 the result is \<open>[A, B]\<close>; without a limit C follows.\<close>

lemma DiscoverUserRepos_scenario:
  "fst (DiscoverUserRepos rt (demoWorld [demoNode ''A'' 5, demoNode ''B'' 1]
          [demoNode ''B'' 1, demoNode ''C'' 50]) ''alice'' (demoOptions 2))
     = Inr [demoTarget ''A'' 5 True, demoTarget ''B'' 1 True]
   \<and> fst (DiscoverUserRepos rt (demoWorld [demoNode ''A'' 5, demoNode ''B'' 1]
          [demoNode ''B'' 1, demoNode ''C'' 50]) ''alice'' (demoOptions 0))
     = Inr [demoTarget ''A'' 5 True, demoTarget ''B'' 1 True, demoTarget ''C'' 50 False]"
proof -
  have c: "collectRepos (demoOptions limit) [demoNode ''A'' 5, demoNode ''B'' 1]
             [demoNode ''B'' 1, demoNode ''C'' 50]
      = ([demoTarget ''A'' 5 True, demoTarget ''B'' 1 True],
         [(''octo/C'', demoTarget ''C'' 50 False)])" for limit
    by code_simp
  have i: "inj_on Stars (snd ` set [(''octo/C'', demoTarget ''C'' 50 False)])"
    by simp
  show ?thesis
    unfolding DiscoverUserRepos_demoWorld mergeRepos_distinct_stars[OF c i]
    by (simp add: cutAt_def demoOptions_def)
qed


subsection \<open>The disk cache\<close>

text \<open>
  Claim C8. A read of an absent file is a miss without an error; a read of a file whose
  age, as \<open>time.Since\<close> measures it, exceeds the ttl is a miss without an error whatever
  the file holds; and a read is a hit only for a file that is present and not older than
  the ttl, whose content was then decoded into the target.
\<close>

theorem readCache_miss_or_fresh_hit:
  "(faults fs OpStat path = None \<and> files fs path = None \<longrightarrow>
      readCache unmarshal fs now path target ttl = (False, None, target))
   \<and> (faults fs OpStat path = None \<and> files fs path = Some f \<and> Since now (modTime f) > ttl \<longrightarrow>
      readCache unmarshal fs now path target ttl = (False, None, target))
   \<and> (fst (readCache unmarshal fs now path target ttl) \<longrightarrow>
      (\<exists>f. files fs path = Some f \<and> Since now (modTime f) \<le> ttl
         \<and> unmarshal (content f) target
             = (snd (snd (readCache unmarshal fs now path target ttl)), None)))"
  by (auto simp: readCache_def osStat_def osReadFile_def
      split: option.splits statResult.splits sum.splits prod.splits if_splits)

theorem readCache_miss_or_fresh_hit_witness:
  "readCache unmarshalRawMessage demoFS 5000 ''/c/ghp/absent.json'' ''old'' 100
        = (False, None, ''old'')
   \<and> readCache unmarshalRawMessage demoFS 5000 ''/c/ghp/repos-octo.json'' ''old'' 100
        = (False, None, ''old'')
   \<and> readCache unmarshalRawMessage demoFS 1050 ''/c/ghp/repos-octo.json'' ''old'' 100
        = (True, None, ''[]'')"
proof -
  have a: "faults demoFS OpStat ''/c/ghp/absent.json'' = None
      \<and> files demoFS ''/c/ghp/absent.json'' = None"
    by (simp add: demoFS_def)
  have b: "faults demoFS OpStat ''/c/ghp/repos-octo.json'' = None
      \<and> files demoFS ''/c/ghp/repos-octo.json'' = Some \<lparr>modTime = 1000, content = ''[]''\<rparr>
      \<and> Since 5000 (modTime \<lparr>modTime = 1000, content = ''[]''\<rparr>) > 100"
    by (simp add: demoFS_def Since_def maxDuration_def minDuration_def)
  have u: "unmarshalRawMessage ''[]'' ''old'' = (''[]'', None)"
    by code_simp
  have c: "readCache unmarshalRawMessage demoFS 1050 ''/c/ghp/repos-octo.json'' ''old'' 100
      = (True, None, ''[]'')"
    by (simp add: readCache_def osStat_def osReadFile_def demoFS_def Since_def maxDuration_def
        minDuration_def u)
  show ?thesis
    using readCache_miss_or_fresh_hit
        [of demoFS "''/c/ghp/absent.json''" unmarshalRawMessage 5000 "''old''" 100]
      readCache_miss_or_fresh_hit
        [of demoFS "''/c/ghp/repos-octo.json''" unmarshalRawMessage 5000 "''old''" 100
            "\<lparr>modTime = 1000, content = ''[]''\<rparr>"]
      a b c
    by blast
qed




subsection \<open>Decoding architecture results\<close>
















subsection \<open>One LLM call\<close>

lemma IndexByte_absent: "c \<notin> set s \<Longrightarrow> IndexByte s c = - 1"
  by (induction s) (auto simp: Let_def)

lemma IndexByte_first: "c \<notin> set a \<Longrightarrow> IndexByte (a @ c # b) c = int (length a)"
  by (induction a) (auto simp: Let_def)

lemma LastIndexByte_absent: "c \<notin> set s \<Longrightarrow> LastIndexByte s c = - 1"
  by (simp add: LastIndexByte_def IndexByte_absent)

lemma LastIndexByte_last: "c \<notin> set b \<Longrightarrow> LastIndexByte (a @ c # b) c = int (length a)"
  using IndexByte_first[of c "rev b" "rev a"]
  by (simp add: LastIndexByte_def Let_def)

lemma extractJSON_found:
  assumes "CHR ''{'' \<notin> set pre" "CHR ''}'' \<notin> set post"
  shows "extractJSON (pre @ CHR ''{'' # mid @ CHR ''}'' # post) = Inr (CHR ''{'' # mid @ ''}'')"
proof -
  let ?s = "pre @ CHR ''{'' # mid @ CHR ''}'' # post"
  have st: "IndexByte ?s (CHR ''{'') = int (length pre)"
    by (rule IndexByte_first[OF assms(1)])
  have "LastIndexByte ((pre @ CHR ''{'' # mid) @ CHR ''}'' # post) (CHR ''}'')
      = int (length (pre @ CHR ''{'' # mid))"
    by (rule LastIndexByte_last[OF assms(2)])
  then have en: "LastIndexByte ?s (CHR ''}'') = int (length pre) + 1 + int (length mid)"
    by simp
  have n: "nat (int (length pre) + 1 + int (length mid) + 1 - int (length pre)) = Suc (Suc (length mid))"
    by simp
  show ?thesis
    unfolding extractJSON_def st en Let_def n by simp
qed

lemma extractJSON_none:
  assumes "CHR ''{'' \<notin> set a" "CHR ''}'' \<notin> set b"
  shows "extractJSON (a @ b) = Inl ''no json braces found''"
proof (cases "CHR ''{'' \<in> set b")
  case False
  with assms have "IndexByte (a @ b) (CHR ''{'') = - 1"
    by (simp add: IndexByte_absent)
  then show ?thesis by (simp add: extractJSON_def)
next
  case True
  then obtain b1 b2 where b: "b = b1 @ CHR ''{'' # b2" "CHR ''{'' \<notin> set b1"
    by (meson split_list_first)
  have "IndexByte ((a @ b1) @ CHR ''{'' # b2) (CHR ''{'') = int (length (a @ b1))"
    by (rule IndexByte_first) (use assms b in auto)
  then have st: "IndexByte (a @ b) (CHR ''{'') = int (length a) + int (length b1)"
    by (simp add: b)
  show ?thesis
  proof (cases "CHR ''}'' \<in> set a")
    case False
    with assms have "LastIndexByte (a @ b) (CHR ''}'') = - 1"
      by (simp add: LastIndexByte_absent)
    then show ?thesis by (simp add: extractJSON_def Let_def)
  next
    case True
    then obtain a1 a2 where a: "a = a1 @ CHR ''}'' # a2" "CHR ''}'' \<notin> set a2"
      by (meson split_list_last)
    have "LastIndexByte (a1 @ CHR ''}'' # (a2 @ b)) (CHR ''}'') = int (length a1)"
      by (rule LastIndexByte_last) (use assms a in auto)
    then have en: "LastIndexByte (a @ b) (CHR ''}'') = int (length a1)"
      by (simp add: a)
    have "int (length a1) \<le> int (length a) + int (length b1)"
      by (simp add: a)
    then show ?thesis
      unfolding extractJSON_def st en Let_def by simp
  qed
qed

lemma evalOne_unfold:
  "evalOne sdk um out =
     (case sdk 0 of
        Completion ch \<Rightarrow> \<lparr>evalErr = fst (decodeCompletion um ch out),
                          evalOut = snd (decodeCompletion um ch out), slept = [], calls = 1\<rparr>
      | TransportError e0 \<Rightarrow>
     (case sdk 1 of
        Completion ch \<Rightarrow> \<lparr>evalErr = fst (decodeCompletion um ch out),
                          evalOut = snd (decodeCompletion um ch out), slept = [300], calls = 2\<rparr>
      | TransportError e1 \<Rightarrow>
     (case sdk 2 of
        Completion ch \<Rightarrow> \<lparr>evalErr = fst (decodeCompletion um ch out),
                          evalOut = snd (decodeCompletion um ch out), slept = [300, 600], calls = 3\<rparr>
      | TransportError e2 \<Rightarrow>
          \<lparr>evalErr = Some e2, evalOut = out, slept = [300, 600, 900], calls = 3\<rparr>)))"
  by (simp add: evalOne_def numeral_2_eq_2 numeral_3_eq_3 split: sdkResponse.splits prod.splits)

text \<open>
  Claim C6. \<open>evalOne\<close> calls the SDK at most three times; it sleeps 300 ms times the
  attempt number after each transport failure and at no other point; the first answer
  that is not a transport failure ends the loop, with the error \<open>empty completion\<close> when it
  has no choice; a text that does not parse is parsed again from its first \<open>{\<close> to its
  last \<open>}\<close>, and the call fails when there is no such pair or the second parse fails.
\<close>

theorem evalOne_retry_and_fallback:
  "calls (evalOne sdk unmarshal out) \<le> 3
   \<and> calls (evalOne sdk unmarshal out) = min 3 (failedAttempts sdk + 1)
   \<and> slept (evalOne sdk unmarshal out) = backoffs (failedAttempts sdk)
   \<and> (failedAttempts sdk = 3 \<and> sdk 2 = TransportError e \<longrightarrow>
        evalErr (evalOne sdk unmarshal out) = Some e)
   \<and> (failedAttempts sdk < 3 \<and> sdk (failedAttempts sdk) = Completion choices \<longrightarrow>
        (evalErr (evalOne sdk unmarshal out), evalOut (evalOne sdk unmarshal out))
          = decodeCompletion unmarshal choices out)
   \<and> decodeCompletion unmarshal [] out = (Some ''empty completion'', out)
   \<and> (unmarshal txt out = (out1, None) \<longrightarrow>
        decodeCompletion unmarshal (txt # rest) out = (None, out1))
   \<and> (unmarshal txt out = (out1, Some e1) \<longrightarrow>
        decodeCompletion unmarshal (txt # rest) out =
          (case extractJSON txt of
             Inl stripErr \<Rightarrow> (Some (''json parse: '' @ e1), out1)
           | Inr js \<Rightarrow>
               (case unmarshal js out1 of
                  (out2, None) \<Rightarrow> (None, out2)
                | (out2, Some e2) \<Rightarrow> (Some (''json parse(2): '' @ e2), out2))))
   \<and> (CHR ''{'' \<notin> set pre \<and> CHR ''}'' \<notin> set post \<longrightarrow>
        extractJSON (pre @ CHR ''{'' # mid @ CHR ''}'' # post) = Inr (CHR ''{'' # mid @ ''}''))
   \<and> (CHR ''{'' \<notin> set a \<and> CHR ''}'' \<notin> set b \<longrightarrow>
        extractJSON (a @ b) = Inl ''no json braces found'')"
proof -
  have loop: "calls (evalOne sdk unmarshal out) \<le> 3
     \<and> calls (evalOne sdk unmarshal out) = min 3 (failedAttempts sdk + 1)
     \<and> slept (evalOne sdk unmarshal out) = backoffs (failedAttempts sdk)
     \<and> (failedAttempts sdk = 3 \<and> sdk 2 = TransportError e \<longrightarrow>
          evalErr (evalOne sdk unmarshal out) = Some e)
     \<and> (failedAttempts sdk < 3 \<and> sdk (failedAttempts sdk) = Completion choices \<longrightarrow>
          (evalErr (evalOne sdk unmarshal out), evalOut (evalOne sdk unmarshal out))
            = decodeCompletion unmarshal choices out)"
    by (cases "sdk 0"; cases "sdk 1"; cases "sdk 2")
       (simp_all add: evalOne_unfold failedAttempts_def isTransportError_def backoffs_def
          upt_rec numeral_2_eq_2 numeral_3_eq_3)
  have dec: "decodeCompletion unmarshal [] out = (Some ''empty completion'', out)
     \<and> (unmarshal txt out = (out1, None) \<longrightarrow>
          decodeCompletion unmarshal (txt # rest) out = (None, out1))
     \<and> (unmarshal txt out = (out1, Some e1) \<longrightarrow>
          decodeCompletion unmarshal (txt # rest) out =
            (case extractJSON txt of
               Inl stripErr \<Rightarrow> (Some (''json parse: '' @ e1), out1)
             | Inr js \<Rightarrow>
                 (case unmarshal js out1 of
                    (out2, None) \<Rightarrow> (None, out2)
                  | (out2, Some e2) \<Rightarrow> (Some (''json parse(2): '' @ e2), out2))))"
    by (simp add: decodeCompletion_def)
  from loop dec extractJSON_found[of pre post mid] extractJSON_none[of a b]
  show ?thesis by blast
qed

theorem evalOne_retry_and_fallback_witness:
  "calls (evalOne demoSdk demoUnmarshal []) = 3
   \<and> slept (evalOne demoSdk demoUnmarshal []) = [300, 600]
   \<and> evalErr (evalOne demoSdk demoUnmarshal []) = None
   \<and> evalOut (evalOne demoSdk demoUnmarshal []) = ''{a}''"
proof -
  have k: "failedAttempts demoSdk = 2"
    by code_simp
  have b: "backoffs 2 = [300, 600]"
    by code_simp
  have c: "demoSdk 2 = Completion [''Sure: {a} done'']"
    by (simp add: demoSdk_def)
  have d: "decodeCompletion demoUnmarshal [''Sure: {a} done''] [] = (None, ''{a}'')"
    by code_simp
  from evalOne_retry_and_fallback
         [where sdk = demoSdk and unmarshal = demoUnmarshal and out = "[]"
            and choices = "[''Sure: {a} done'']"]
  show ?thesis
    by (simp add: k b c d)
qed

end
